theory Spec2Isabelle
  imports Complex_Main "HOL-Library.AList"
begin

section \<open>JavaScript values\<close>

text \<open>
  Host replies, message payloads and event payloads are untyped JavaScript values.
  Strings are byte lists (names outside ASCII are kept as their UTF-8 bytes); numbers
  are reals, with \<open>NaN\<close> as a value of its own; an object is the list of its own
  properties in insertion order.
\<close>

datatype jsval =
    JUndefined
  | JNull
  | JBool bool
  | JNum real
  | JNaN
  | JStr string
  | JArr "jsval list"
  | JObj "(string \<times> jsval) list"

text \<open>JavaScript truthiness, as used by \<open>if (x)\<close>, \<open>x && y\<close> and \<open>x || y\<close>.\<close>

fun truthy :: "jsval \<Rightarrow> bool" where
  "truthy JUndefined = False"
| "truthy JNull = False"
| "truthy (JBool b) = b"
| "truthy (JNum r) = (r \<noteq> 0)"
| "truthy JNaN = False"
| "truthy (JStr s) = (s \<noteq> [])"
| "truthy (JArr xs) = True"
| "truthy (JObj ps) = True"

text \<open>
  Property read \<open>x.name\<close> for the property names the bridge reads (\<open>data\<close>,
  \<open>success\<close>, \<open>result\<close>, \<open>event\<close>, \<open>messageId\<close>): \<open>None\<close> is the
  \<open>TypeError\<close> of reading a property of \<open>null\<close> or \<open>undefined\<close>; primitives and
  arrays have no such property and give \<open>undefined\<close>.
\<close>

fun get_prop :: "jsval \<Rightarrow> string \<Rightarrow> jsval option" where
  "get_prop JUndefined name = None"
| "get_prop JNull name = None"
| "get_prop (JObj ps) name = (case map_of ps name of Some v \<Rightarrow> Some v | None \<Rightarrow> Some JUndefined)"
| "get_prop v name = Some JUndefined"

text \<open>\<open>toLowerCase\<close> on the ASCII letters; bytes of other characters are left alone.\<close>

definition lower_char :: "char \<Rightarrow> char" where
  "lower_char c =
     (case map_of (zip ''ABCDEFGHIJKLMNOPQRSTUVWXYZ'' ''abcdefghijklmnopqrstuvwxyz'') c of
        Some l \<Rightarrow> l
      | None \<Rightarrow> c)"

definition toLowerCase :: "string \<Rightarrow> string" where
  "toLowerCase s = map lower_char s"

text \<open>\<open>String(n)\<close> for a non-negative integer: its decimal digits.\<close>

fun show_nat :: "nat \<Rightarrow> string" where
  "show_nat n =
     (if n < 10 then [''0123456789'' ! n]
      else show_nat (n div 10) @ [''0123456789'' ! (n mod 10)])"

declare show_nat.simps [simp del]

section \<open>Event bus (utils/EventEmitter.ts)\<close>

text \<open>
  \<open>listeners\<close> is a \<open>Map<string, Set<EventCallback>>\<close>. A \<open>Map\<close> and a \<open>Set\<close>
  iterate in insertion order and hold each key or element once. The \<open>Set\<close> of an event
  is shared between the map and every unsubscribe closure returned by \<open>on\<close>, so the
  sets live in a store indexed by address and the map holds addresses. Callbacks are
  compared by identity; \<open>'cb\<close> is the type of those identities.
\<close>

record 'cb EventEmitter =
  sets :: "'cb list list"
  listeners :: "(string \<times> nat) list"

definition new_EventEmitter :: "'cb EventEmitter" where
  "new_EventEmitter = \<lparr>sets = [], listeners = []\<rparr>"

definition set_add :: "'a \<Rightarrow> 'a list \<Rightarrow> 'a list" where
  "set_add x xs = (if x \<in> set xs then xs else xs @ [x])"

definition set_delete :: "'a \<Rightarrow> 'a list \<Rightarrow> 'a list" where
  "set_delete x xs = filter (\<lambda>y. y \<noteq> x) xs"

text \<open>The closure returned by \<open>on\<close>: it captures the event, the set object and the callback.\<close>

datatype 'cb Unsubscriber = Unsubscriber string nat 'cb

definition on :: "string \<Rightarrow> 'cb \<Rightarrow> 'cb EventEmitter \<Rightarrow> 'cb Unsubscriber \<times> 'cb EventEmitter" where
  "on event callback em =
     (case map_of (listeners em) event of
        None \<Rightarrow>
          (let a = length (sets em)
           in (Unsubscriber event a callback,
               em\<lparr>sets := sets em @ [set_add callback []],
                  listeners := listeners em @ [(event, a)]\<rparr>))
      | Some a \<Rightarrow>
          (Unsubscriber event a callback,
           em\<lparr>sets := (sets em)[a := set_add callback (sets em ! a)]\<rparr>))"

fun unsubscribe :: "'cb Unsubscriber \<Rightarrow> 'cb EventEmitter \<Rightarrow> 'cb EventEmitter" where
  "unsubscribe (Unsubscriber event a callback) em =
     (let em1 = em\<lparr>sets := (sets em)[a := set_delete callback (sets em ! a)]\<rparr>
      in if length (sets em1 ! a) = 0
         then em1\<lparr>listeners := AList.delete event (listeners em1)\<rparr>
         else em1)"

definition off :: "string \<Rightarrow> 'cb option \<Rightarrow> 'cb EventEmitter \<Rightarrow> 'cb EventEmitter" where
  "off event callback em =
     (case callback of
        None \<Rightarrow> em\<lparr>listeners := AList.delete event (listeners em)\<rparr>
      | Some cb \<Rightarrow>
          (case map_of (listeners em) event of
             None \<Rightarrow> em
           | Some a \<Rightarrow>
               (let em1 = em\<lparr>sets := (sets em)[a := set_delete cb (sets em ! a)]\<rparr>
                in if length (sets em1 ! a) = 0
                   then em1\<lparr>listeners := AList.delete event (listeners em1)\<rparr>
                   else em1)))"

text \<open>The callbacks \<open>emit\<close> invokes for an event, in the order it invokes them.\<close>

definition emit_targets :: "string \<Rightarrow> 'cb EventEmitter \<Rightarrow> 'cb list" where
  "emit_targets event em =
     (case map_of (listeners em) event of None \<Rightarrow> [] | Some a \<Rightarrow> sets em ! a)"

definition clear :: "'cb EventEmitter \<Rightarrow> 'cb EventEmitter" where
  "clear em = em\<lparr>listeners := []\<rparr>"

text \<open>
  \<open>listenerCount(event?)\<close>: the test \<open>if (event)\<close> is false for a missing argument
  and for the empty string, and both give the total over all events.
\<close>

definition listenerCount :: "string option \<Rightarrow> 'cb EventEmitter \<Rightarrow> nat" where
  "listenerCount event em =
     (let total = sum_list (map (\<lambda>(e, a). length (sets em ! a)) (listeners em))
      in case event of
           None \<Rightarrow> total
         | Some e \<Rightarrow>
             if e = [] then total
             else (case map_of (listeners em) e of None \<Rightarrow> 0 | Some a \<Rightarrow> length (sets em ! a)))"

text \<open>Every set the map refers to is in the store.\<close>

definition emitter_ok :: "'cb EventEmitter \<Rightarrow> bool" where
  "emitter_ok em = list_all (\<lambda>(e, a). a < length (sets em)) (listeners em)"

section \<open>Host environment (types/platform.types.ts)\<close>

text \<open>
  A host function receives a JavaScript value (where the source passes
  \<open>JSON.stringify(x)\<close>, the value \<open>x\<close> stands for its JSON text; a call without
  argument passes \<open>undefined\<close>) and either throws or returns a value. A returned
  promise is represented by its settlement: fulfilled is \<open>Returns\<close>, rejected is
  \<open>Throws\<close>, which is what \<open>await\<close> inside \<open>try\<close> makes of it.
\<close>

datatype reply = Throws string | Returns jsval

type_synonym host_fn = "jsval \<Rightarrow> reply"

record WebviewApi =
  postMessage :: host_fn
  addEventListener :: "host_fn option"

record AndroidApi =
  android_receiveMessage :: "host_fn option"
  android_getStudentList :: "host_fn option"
  android_studentPicked :: "host_fn option"
  android_studentRemoved :: "host_fn option"

record AsyncBridgeApi =
  async_getStudentList :: "host_fn option"
  async_studentPicked :: "host_fn option"
  async_studentRemoved :: "host_fn option"

text \<open>
  \<open>WindowWithBridge\<close>: every host object is optional. \<open>Windows\<close> has the one
  required member \<open>receiveMessage\<close>, \<open>electronAPI\<close> the two required functions
  \<open>send\<close> and \<open>on\<close>; \<open>JSON_parse\<close> is the global \<open>JSON.parse\<close>, with
  \<open>None\<close> for its \<open>SyntaxError\<close>.
\<close>

record Window =
  Windows_receiveMessage :: "host_fn option"
  chrome_webview :: "WebviewApi option"
  Android :: "AndroidApi option"
  asyncBridge :: "AsyncBridgeApi option"
  electronAPI :: bool
  userAgent :: string
  JSON_parse :: "string \<Rightarrow> jsval option"

section \<open>Environment detector (PlatformDetector.ts)\<close>

datatype PlatformType = PWindows | PAndroid | PElectron | PWeb

datatype Confidence = High | Medium | Low

record PlatformDetectionResult =
  det_platform :: PlatformType
  confidence :: Confidence
  detectionMethod :: string

definition hasWindowsReceiveMessage :: "Window \<Rightarrow> bool" where
  "hasWindowsReceiveMessage w = (Windows_receiveMessage w \<noteq> None)"

definition hasAndroidObject :: "Window \<Rightarrow> bool" where
  "hasAndroidObject w =
     (case Android w of
        None \<Rightarrow> False
      | Some a \<Rightarrow>
          android_receiveMessage a \<noteq> None \<or> android_getStudentList a \<noteq> None \<or>
          android_studentPicked a \<noteq> None \<or> android_studentRemoved a \<noteq> None)"

definition hasAsyncBridge :: "Window \<Rightarrow> bool" where
  "hasAsyncBridge w =
     (case asyncBridge w of
        None \<Rightarrow> False
      | Some b \<Rightarrow>
          async_getStudentList b \<noteq> None \<or> async_studentPicked b \<noteq> None \<or>
          async_studentRemoved b \<noteq> None)"

definition hasChromeWebView :: "Window \<Rightarrow> bool" where
  "hasChromeWebView w = (chrome_webview w \<noteq> None)"

definition hasElectronAPI :: "Window \<Rightarrow> bool" where
  "hasElectronAPI w = electronAPI w"

fun starts_with :: "string \<Rightarrow> string \<Rightarrow> bool" where
  "starts_with [] s = True"
| "starts_with (p # ps) [] = False"
| "starts_with (p # ps) (c # cs) = (p = c \<and> starts_with ps cs)"

fun contains :: "string \<Rightarrow> string \<Rightarrow> bool" where
  "contains sub [] = starts_with sub []"
| "contains sub (c # cs) = (starts_with sub (c # cs) \<or> contains sub cs)"

definition ends_with :: "string \<Rightarrow> string \<Rightarrow> bool" where
  "ends_with suffix s = starts_with (rev suffix) (rev s)"

text \<open>\<open>/Android/i.test(navigator.userAgent)\<close>\<close>

definition isAndroidUserAgent :: "Window \<Rightarrow> bool" where
  "isAndroidUserAgent w = contains ''android'' (toLowerCase (userAgent w))"

definition detect :: "Window \<Rightarrow> PlatformDetectionResult" where
  "detect w =
     (if hasWindowsReceiveMessage w then
        \<lparr>det_platform = PWindows, confidence = High, detectionMethod = ''Windows.receiveMessage''\<rparr>
      else if hasAndroidObject w then
        \<lparr>det_platform = PAndroid, confidence = High, detectionMethod = ''Android object methods''\<rparr>
      else if hasAsyncBridge w \<and> isAndroidUserAgent w then
        \<lparr>det_platform = PAndroid, confidence = High,
         detectionMethod = ''asyncBridge + Android UserAgent''\<rparr>
      else if hasAsyncBridge w \<and> \<not> hasChromeWebView w then
        \<lparr>det_platform = PAndroid, confidence = Medium,
         detectionMethod = ''asyncBridge without chrome.webview''\<rparr>
      else if hasAsyncBridge w \<and> hasChromeWebView w then
        \<lparr>det_platform = PWindows, confidence = High,
         detectionMethod = ''asyncBridge + chrome.webview''\<rparr>
      else if hasChromeWebView w then
        \<lparr>det_platform = PWindows, confidence = Medium, detectionMethod = ''chrome.webview only''\<rparr>
      else if hasElectronAPI w then
        \<lparr>det_platform = PElectron, confidence = High, detectionMethod = ''electronAPI''\<rparr>
      else
        \<lparr>det_platform = PWeb, confidence = Low, detectionMethod = ''fallback''\<rparr>)"

text \<open>
  The cascade as section 4.2 of the specification words it: eight rules over the six
  probe results, tried in order, the first whose condition holds giving the result.
\<close>

record Probes =
  desktop_receive_function :: bool
  mobile_object_method :: bool
  generic_async_object :: bool
  desktop_webview_channel :: bool
  alternate_embedded_api :: bool
  mobile_user_agent :: bool

definition probes :: "Window \<Rightarrow> Probes" where
  "probes w =
     \<lparr>desktop_receive_function = hasWindowsReceiveMessage w,
      mobile_object_method = hasAndroidObject w,
      generic_async_object = hasAsyncBridge w,
      desktop_webview_channel = hasChromeWebView w,
      alternate_embedded_api = hasElectronAPI w,
      mobile_user_agent = isAndroidUserAgent w\<rparr>"

definition spec_rules :: "((Probes \<Rightarrow> bool) \<times> PlatformType \<times> Confidence) list" where
  "spec_rules =
     [(\<lambda>p. desktop_receive_function p, PWindows, High),
      (\<lambda>p. mobile_object_method p, PAndroid, High),
      (\<lambda>p. generic_async_object p \<and> mobile_user_agent p, PAndroid, High),
      (\<lambda>p. generic_async_object p \<and> \<not> desktop_webview_channel p, PAndroid, Medium),
      (\<lambda>p. generic_async_object p \<and> desktop_webview_channel p, PWindows, High),
      (\<lambda>p. desktop_webview_channel p, PWindows, Medium),
      (\<lambda>p. alternate_embedded_api p, PElectron, High),
      (\<lambda>p. True, PWeb, Low)]"

fun first_match :: "((Probes \<Rightarrow> bool) \<times> PlatformType \<times> Confidence) list \<Rightarrow> Probes \<Rightarrow>
    (PlatformType \<times> Confidence) option" where
  "first_match [] p = None"
| "first_match ((c, r) # rules) p = (if c p then Some r else first_match rules p)"

section \<open>Bridge data (types/bridge.types.ts)\<close>

record Student =
  studentId :: string
  name :: string
  seatNumber :: "string option"

datatype ConnectionStatus = Connected | Disconnected | Connecting | Error

fun status_text :: "ConnectionStatus \<Rightarrow> string" where
  "status_text Connected = ''connected''"
| "status_text Disconnected = ''disconnected''"
| "status_text Connecting = ''connecting''"
| "status_text Error = ''error''"

text \<open>The wire message; \<open>timestamp\<close> is the clock reading that \<open>toISOString\<close> prints.\<close>

record BridgeMessage =
  event :: string
  data :: jsval
  timestamp :: nat
  messageId :: "string option"

definition message_json :: "BridgeMessage \<Rightarrow> jsval" where
  "message_json m =
     JObj ([(''event'', JStr (event m)), (''data'', data m),
            (''timestamp'', JNum (real (timestamp m)))] @
           (case messageId m of None \<Rightarrow> [] | Some i \<Rightarrow> [(''messageId'', JStr i)]))"

definition student_json :: "Student \<Rightarrow> jsval" where
  "student_json st =
     JObj ([(''studentId'', JStr (studentId st)), (''name'', JStr (name st))] @
           (case seatNumber st of None \<Rightarrow> [] | Some n \<Rightarrow> [(''seatNumber'', JStr n)]))"

text \<open>A \<open>StudentPickedEvent\<close> or \<open>StudentRemovedEvent\<close>, as the value handed to a host.\<close>

definition event_json :: "string \<Rightarrow> jsval" where
  "event_json sid = JObj [(''studentId'', JStr sid)]"

type_synonym bus_event = "string \<times> jsval"

section \<open>Shared strategy base (strategies/BridgeStrategy.ts)\<close>

text \<open>
  A promise made by \<open>createPendingRequest\<close> is settled once: \<open>None\<close> while it is
  pending, then its first settlement for good. The \<open>resolve\<close> and \<open>reject\<close> handles
  kept in the table are the address of their promise. A live timeout is the closure
  \<open>window.setTimeout\<close> was given: the message id, the promise it rejects and the
  duration it reports.
\<close>

datatype settlement = Resolved jsval | Rejected string

record PendingRequest =
  promise :: nat
  timeout :: nat

record Timeout =
  t_messageId :: string
  t_promise :: nat
  t_ms :: nat

record BridgeStrategy =
  connectionStatus :: ConnectionStatus
  lastActivity :: "nat option"
  messageIdCounter :: nat
  pendingRequests :: "(string \<times> PendingRequest) list"
  promises :: "settlement option list"
  timers :: "(nat \<times> Timeout) list"
  timerCounter :: nat

text \<open>What a suspended \<open>async\<close> method has done when control returns to the caller.\<close>

datatype 'a outcome = Return 'a | Throw string | Await nat

definition settle :: "nat \<Rightarrow> settlement \<Rightarrow> settlement option list \<Rightarrow> settlement option list" where
  "settle p v ps = (if p < length ps \<and> ps ! p = None then ps[p := Some v] else ps)"

text \<open>\<open>`msg_${Date.now()}_${++this.messageIdCounter}`\<close>\<close>

definition generateMessageId ::
    "nat \<Rightarrow> 'a BridgeStrategy_scheme \<Rightarrow> string \<times> 'a BridgeStrategy_scheme" where
  "generateMessageId now s =
     (let c = messageIdCounter s + 1
      in (''msg_'' @ show_nat now @ ''_'' @ show_nat c, s\<lparr>messageIdCounter := c\<rparr>))"

definition createMessage ::
    "nat \<Rightarrow> string \<Rightarrow> jsval \<Rightarrow> 'a BridgeStrategy_scheme \<Rightarrow>
     BridgeMessage \<times> 'a BridgeStrategy_scheme" where
  "createMessage now ev d s =
     (let (i, s') = generateMessageId now s
      in (\<lparr>event = ev, data = d, timestamp = now, messageId = Some i\<rparr>, s'))"

definition createPendingRequest ::
    "string \<Rightarrow> nat \<Rightarrow> 'a BridgeStrategy_scheme \<Rightarrow> nat \<times> 'a BridgeStrategy_scheme" where
  "createPendingRequest mid ms s =
     (let p = length (promises s);
          timeoutId = timerCounter s + 1
      in (p, s\<lparr>promises := promises s @ [None],
                timerCounter := timeoutId,
                timers := timers s @ [(timeoutId, \<lparr>t_messageId = mid, t_promise = p, t_ms = ms\<rparr>)],
                pendingRequests :=
                  AList.update mid \<lparr>promise = p, timeout = timeoutId\<rparr> (pendingRequests s)\<rparr>))"

text \<open>
  The callback of a timeout, run when its duration has passed and no \<open>clearTimeout\<close>
  removed it; a cleared timeout never runs.
\<close>

definition fire_timeout :: "nat \<Rightarrow> 'a BridgeStrategy_scheme \<Rightarrow> 'a BridgeStrategy_scheme" where
  "fire_timeout timeoutId s =
     (case map_of (timers s) timeoutId of
        None \<Rightarrow> s
      | Some t \<Rightarrow>
          s\<lparr>timers := AList.delete timeoutId (timers s),
            pendingRequests := AList.delete (t_messageId t) (pendingRequests s),
            promises :=
              settle (t_promise t)
                (Rejected (''Request timeout after '' @ show_nat (t_ms t) @ ''ms'')) (promises s)\<rparr>)"

definition resolvePendingRequest ::
    "string \<Rightarrow> jsval \<Rightarrow> 'a BridgeStrategy_scheme \<Rightarrow> 'a BridgeStrategy_scheme" where
  "resolvePendingRequest mid d s =
     (case map_of (pendingRequests s) mid of
        None \<Rightarrow> s
      | Some pending \<Rightarrow>
          s\<lparr>timers := AList.delete (timeout pending) (timers s),
            promises := settle (promise pending) (Resolved d) (promises s),
            pendingRequests := AList.delete mid (pendingRequests s)\<rparr>)"

definition rejectPendingRequest ::
    "string \<Rightarrow> string \<Rightarrow> 'a BridgeStrategy_scheme \<Rightarrow> 'a BridgeStrategy_scheme" where
  "rejectPendingRequest mid err s =
     (case map_of (pendingRequests s) mid of
        None \<Rightarrow> s
      | Some pending \<Rightarrow>
          s\<lparr>timers := AList.delete (timeout pending) (timers s),
            promises := settle (promise pending) (Rejected err) (promises s),
            pendingRequests := AList.delete mid (pendingRequests s)\<rparr>)"

definition updateConnectionStatus ::
    "ConnectionStatus \<Rightarrow> 'a BridgeStrategy_scheme \<Rightarrow> 'a BridgeStrategy_scheme \<times> bus_event list" where
  "updateConnectionStatus st s =
     (s\<lparr>connectionStatus := st\<rparr>, [(''connectionStatusChanged'', JStr (status_text st))])"

definition updateLastActivity :: "nat \<Rightarrow> 'a BridgeStrategy_scheme \<Rightarrow> 'a BridgeStrategy_scheme" where
  "updateLastActivity now s = s\<lparr>lastActivity := Some now\<rparr>"

text \<open>One step of the \<open>forEach\<close> of \<open>cleanup\<close>, then the loop and the final \<open>clear\<close>.\<close>

definition cleanup_entry ::
    "string \<times> PendingRequest \<Rightarrow> 'a BridgeStrategy_scheme \<Rightarrow> 'a BridgeStrategy_scheme" where
  "cleanup_entry kv s =
     s\<lparr>timers := AList.delete (timeout (snd kv)) (timers s),
       promises := settle (promise (snd kv)) (Rejected ''Connection closed'') (promises s)\<rparr>"

definition cleanup :: "'a BridgeStrategy_scheme \<Rightarrow> 'a BridgeStrategy_scheme" where
  "cleanup s = (fold cleanup_entry (pendingRequests s) s)\<lparr>pendingRequests := []\<rparr>"

text \<open>
  \<open>handleMessage\<close>, the same text in WindowsBridge and AndroidBridge. Reading
  \<open>data.event\<close> of \<open>null\<close> and calling \<open>endsWith\<close> on a value that is not a
  string throw a \<open>TypeError\<close>, which the method catches and logs: nothing is resolved
  or published then. A \<open>Map\<close> with string keys has no key that is not a string.
\<close>

definition handleMessage ::
    "jsval \<Rightarrow> 'a BridgeStrategy_scheme \<Rightarrow> 'a BridgeStrategy_scheme \<times> bus_event list" where
  "handleMessage d s =
     (case get_prop d ''event'' of
        None \<Rightarrow> (s, [])
      | Some ev \<Rightarrow>
          if \<not> truthy ev then (s, [])
          else (case ev of
                  JStr e \<Rightarrow>
                    (let payload = (case get_prop d ''data'' of Some v \<Rightarrow> v | None \<Rightarrow> JUndefined);
                         s' = (if ends_with ''Response'' e
                               then (case get_prop d ''messageId'' of
                                       Some (JStr mid) \<Rightarrow>
                                         if mid \<noteq> [] \<and> map_of (pendingRequests s) mid \<noteq> None
                                         then resolvePendingRequest mid payload s
                                         else s
                                     | _ \<Rightarrow> s)
                               else s)
                     in (s', [(e, payload)]))
                | _ \<Rightarrow> (s, [])))"

text \<open>
  What the base keeps true of its table: the promise of every pending request exists
  and is not settled, its timeout is live and is the one that was set for it, and no
  live timeout has an id beyond the ones handed out.
\<close>

definition pending_ok :: "'a BridgeStrategy_scheme \<Rightarrow> bool" where
  "pending_ok s =
     (list_all
        (\<lambda>(mid, pr).
           promise pr < length (promises s) \<and> promises s ! promise pr = None \<and>
           (case map_of (timers s) (timeout pr) of
              None \<Rightarrow> False
            | Some t \<Rightarrow> t_messageId t = mid \<and> t_promise t = promise pr))
        (pendingRequests s) \<and>
      list_all (\<lambda>(t, c). t \<le> timerCounter s) (timers s))"

text \<open>
  The table as the operations of the base keep it: besides the above, no two entries
  share a key, no two live timeouts reject the same promise, and every live timeout
  rejects a promise that exists.
\<close>

definition table_inv :: "'a BridgeStrategy_scheme \<Rightarrow> bool" where
  "table_inv s =
     (pending_ok s \<and> distinct (map fst (pendingRequests s)) \<and>
      distinct (map (\<lambda>tc. t_promise (snd tc)) (timers s)) \<and>
      list_all (\<lambda>(t, c). t_promise c < length (promises s)) (timers s))"

section \<open>Desktop strategy (strategies/WindowsBridge.ts)\<close>

record WindowsBridge = BridgeStrategy +
  messageHandler :: bool

text \<open>\<open>a || b\<close>\<close>

definition js_or :: "jsval \<Rightarrow> jsval \<Rightarrow> jsval" where
  "js_or a b = (if truthy a then a else b)"

definition async_method :: "AsyncBridgeApi \<Rightarrow> string \<Rightarrow> host_fn option" where
  "async_method b method =
     (if method = ''getStudentList'' then async_getStudentList b
      else if method = ''studentPicked'' then async_studentPicked b
      else if method = ''studentRemoved'' then async_studentRemoved b
      else None)"

definition Windows_setupListeners ::
    "Window \<Rightarrow> WindowsBridge \<Rightarrow> string option \<times> WindowsBridge" where
  "Windows_setupListeners w s =
     (let s1 = s\<lparr>messageHandler := True\<rparr>
      in case chrome_webview w of
           None \<Rightarrow> (None, s1)
         | Some wv \<Rightarrow>
             (case addEventListener wv of
                None \<Rightarrow> (None, s1)
              | Some f \<Rightarrow>
                  (case f (JStr ''message'') of
                     Throws e \<Rightarrow> (Some e, s1)
                   | Returns v \<Rightarrow> (None, s1))))"

text \<open>
  \<open>connect\<close> has no suspension point: it runs to its end when called. The result is
  \<open>None\<close> when the promise fulfils and the error when it rejects.
\<close>

definition Windows_connect ::
    "nat \<Rightarrow> Window \<Rightarrow> WindowsBridge \<Rightarrow> string option \<times> WindowsBridge \<times> bus_event list" where
  "Windows_connect now w s =
     (let (s1, e1) = updateConnectionStatus Connecting s;
          (r, s2) = Windows_setupListeners w s1;
          (testMessage, s3) = createMessage now ''ping'' (JObj []) s2;
          failure =
            (case r of
               Some e \<Rightarrow> Some (e, s2)
             | None \<Rightarrow>
                 (case Windows_receiveMessage w of
                    Some f \<Rightarrow>
                      (case f (message_json testMessage) of
                         Throws e \<Rightarrow> Some (e, s3) | Returns v \<Rightarrow> None)
                  | None \<Rightarrow>
                      (case chrome_webview w of
                         Some wv \<Rightarrow>
                           (case postMessage wv (message_json testMessage) of
                              Throws e \<Rightarrow> Some (e, s3) | Returns v \<Rightarrow> None)
                       | None \<Rightarrow>
                           (case asyncBridge w of
                              Some b \<Rightarrow> None
                            | None \<Rightarrow> Some (''No Windows bridge API available'', s3)))))
      in case failure of
           None \<Rightarrow>
             (let (s4, e2) = updateConnectionStatus Connected s3
              in (None, updateLastActivity now s4, e1 @ e2))
         | Some (e, sx) \<Rightarrow>
             (let (s4, e2) = updateConnectionStatus Error sx
              in (Some e, s4, e1 @ e2)))"

definition Windows_disconnect :: "WindowsBridge \<Rightarrow> WindowsBridge \<times> bus_event list" where
  "Windows_disconnect s =
     (let (s1, e1) = updateConnectionStatus Disconnected s
      in (cleanup (s1\<lparr>messageHandler := False\<rparr>), e1))"

definition Windows_callAsyncBridge :: "Window \<Rightarrow> string \<Rightarrow> jsval \<Rightarrow> reply" where
  "Windows_callAsyncBridge w method d =
     (case asyncBridge w of
        None \<Rightarrow> Throws ''TypeError''
      | Some b \<Rightarrow>
          (case async_method b method of
             None \<Rightarrow> Throws (''AsyncBridge method '' @ method @ '' not found'')
           | Some fn \<Rightarrow> (if truthy d then fn d else fn JUndefined)))"

text \<open>The error of \<open>sendMessage\<close>, if it throws.\<close>

definition Windows_sendMessage :: "Window \<Rightarrow> BridgeMessage \<Rightarrow> string option" where
  "Windows_sendMessage w m =
     (case Windows_receiveMessage w of
        Some f \<Rightarrow> (case f (message_json m) of Throws e \<Rightarrow> Some e | Returns v \<Rightarrow> None)
      | None \<Rightarrow>
          (case chrome_webview w of
             Some wv \<Rightarrow>
               (case postMessage wv (message_json m) of Throws e \<Rightarrow> Some e | Returns v \<Rightarrow> None)
           | None \<Rightarrow> Some ''Cannot send message to Windows host''))"

text \<open>
  \<open>parseStudentListResponse\<close>: the declared result is \<open>Student[]\<close>, the value
  returned is whatever the expression gives.
\<close>

definition Windows_parseStudentListResponse :: "Window \<Rightarrow> jsval \<Rightarrow> jsval" where
  "Windows_parseStudentListResponse w result =
     (case result of
        JStr str \<Rightarrow>
          (case JSON_parse w str of
             None \<Rightarrow> JArr []
           | Some parsed \<Rightarrow>
               (case get_prop parsed ''data'' of
                  None \<Rightarrow> JArr []
                | Some d \<Rightarrow> js_or (js_or d parsed) (JArr [])))
      | JArr xs \<Rightarrow> JArr xs
      | JObj ps \<Rightarrow>
          (case get_prop (JObj ps) ''data'' of
             None \<Rightarrow> JArr []
           | Some d \<Rightarrow> js_or d (JArr []))
      | _ \<Rightarrow> JArr [])"

text \<open>
  \<open>parseBooleanResponse\<close>: the value returned (declared \<open>boolean\<close>; the object
  branch returns \<open>result.success || false\<close> as it is) and the lines it logs, of which
  this strategy writes none.
\<close>

definition Windows_parseBooleanResponse :: "jsval \<Rightarrow> jsval \<times> string list" where
  "Windows_parseBooleanResponse result =
     (case result of
        JBool b \<Rightarrow> (JBool b, [])
      | JStr str \<Rightarrow> (JBool (toLowerCase str = ''true'' \<or> str = ''1''), [])
      | JArr xs \<Rightarrow> (JBool False, [])
      | JObj ps \<Rightarrow>
          (case get_prop (JObj ps) ''success'' of
             None \<Rightarrow> (JBool False, [])
           | Some v \<Rightarrow> (js_or v (JBool False), []))
      | _ \<Rightarrow> (JBool False, []))"

text \<open>
  The RPC methods return what the method has done when control comes back to the
  caller, the strategy, and the wire messages handed to the host.
\<close>

definition Windows_getStudentList ::
    "nat \<Rightarrow> Window \<Rightarrow> WindowsBridge \<Rightarrow> jsval outcome \<times> WindowsBridge \<times> BridgeMessage list" where
  "Windows_getStudentList now w s =
     (let (mid, s1) = generateMessageId now s;
          direct =
            (case asyncBridge w of
               None \<Rightarrow> None
             | Some b \<Rightarrow>
                 (case async_getStudentList b of
                    None \<Rightarrow> None
                  | Some fn \<Rightarrow>
                      (case Windows_callAsyncBridge w ''getStudentList'' JUndefined of
                         Throws e \<Rightarrow> None
                       | Returns result \<Rightarrow> Some result)))
      in case direct of
           Some result \<Rightarrow>
             (Return (Windows_parseStudentListResponse w result), updateLastActivity now s1, [])
         | None \<Rightarrow> 
             (let (message, s2) = createMessage now ''getStudentList'' (JObj []) s1;
                  (p, s3) = createPendingRequest mid 5000 s2
              in case Windows_sendMessage w message of
                   Some e \<Rightarrow> (Throw e, s3, [])
                 | None \<Rightarrow> (Await p, s3, [message])))"

definition Windows_studentRemoved ::
    "nat \<Rightarrow> Window \<Rightarrow> string \<Rightarrow> WindowsBridge \<Rightarrow>
     jsval outcome \<times> WindowsBridge \<times> BridgeMessage list" where
  "Windows_studentRemoved now w sid s =
     (let (mid, s1) = generateMessageId now s;
          direct =
            (case asyncBridge w of
               None \<Rightarrow> None
             | Some b \<Rightarrow>
                 (case async_studentRemoved b of
                    None \<Rightarrow> None
                  | Some fn \<Rightarrow>
                      (case Windows_callAsyncBridge w ''studentRemoved'' (event_json sid) of
                         Throws e \<Rightarrow> None
                       | Returns result \<Rightarrow> Some result)))
      in case direct of
           Some result \<Rightarrow>
             (Return (fst (Windows_parseBooleanResponse result)), updateLastActivity now s1, [])
         | None \<Rightarrow> 
             (let (message, s2) = createMessage now ''studentRemoved'' (event_json sid) s1;
                  (p, s3) = createPendingRequest mid 5000 s2
              in case Windows_sendMessage w message of
                   Some e \<Rightarrow> (Throw e, s3, [])
                 | None \<Rightarrow> (Await p, s3, [message])))"

section \<open>Mobile strategy (strategies/AndroidBridge.ts)\<close>

text \<open>AndroidBridge adds no field to the base.\<close>

type_synonym AndroidBridge = BridgeStrategy

definition Android_connect ::
    "nat \<Rightarrow> Window \<Rightarrow> AndroidBridge \<Rightarrow> string option \<times> AndroidBridge \<times> bus_event list" where
  "Android_connect now w s =
     (let (s1, e1) = updateConnectionStatus Connecting s
      in if Android w \<noteq> None \<or> asyncBridge w \<noteq> None
         then (let (s2, e2) = updateConnectionStatus Connected s1
               in (None, updateLastActivity now s2, e1 @ e2))
         else (let (s2, e2) = updateConnectionStatus Error s1
               in (Some ''No Android bridge API available'', s2, e1 @ e2)))"

definition Android_disconnect :: "AndroidBridge \<Rightarrow> AndroidBridge \<times> bus_event list" where
  "Android_disconnect s =
     (let (s1, e1) = updateConnectionStatus Disconnected s
      in (cleanup s1, e1))"

definition Android_callAsyncBridge :: "Window \<Rightarrow> string \<Rightarrow> jsval \<Rightarrow> reply" where
  "Android_callAsyncBridge w method d =
     (case asyncBridge w of
        None \<Rightarrow> Throws ''TypeError''
      | Some b \<Rightarrow>
          (case async_method b method of
             None \<Rightarrow> Throws (''AsyncBridge method '' @ method @ '' not found'')
           | Some fn \<Rightarrow> (if method = ''getStudentList'' then fn JUndefined else fn d)))"

definition is_array :: "jsval \<Rightarrow> bool" where
  "is_array v = (case v of JArr xs \<Rightarrow> True | _ \<Rightarrow> False)"

definition Android_parseStudentListResponse :: "Window \<Rightarrow> jsval \<Rightarrow> jsval \<times> string list" where
  "Android_parseStudentListResponse w result =
     (case result of
        JStr str \<Rightarrow>
          (case JSON_parse w str of
             None \<Rightarrow> (JArr [], [''Failed to parse student list:''])
           | Some parsed \<Rightarrow>
               if is_array parsed then (parsed, [])
               else if truthy parsed then
                 (case get_prop parsed ''data'' of
                    None \<Rightarrow> (JArr [], [''Failed to parse student list:''])
                  | Some d \<Rightarrow> if truthy d \<and> is_array d then (d, []) else (JArr [], []))
               else (JArr [], []))
      | JArr xs \<Rightarrow> (JArr xs, [])
      | JObj ps \<Rightarrow>
          (case get_prop (JObj ps) ''data'' of
             Some d \<Rightarrow>
               if truthy d then (d, [])
               else (JArr [], [''Unexpected student list response format:''])
           | None \<Rightarrow> (JArr [], [''Unexpected student list response format:'']))
      | _ \<Rightarrow> (JArr [], [''Unexpected student list response format:'']))"

text \<open>\<open>parseBooleanResponse\<close>: the boolean returned and the warnings it logs.\<close>

definition Android_parseBooleanResponse :: "jsval \<Rightarrow> bool \<times> string list" where
  "Android_parseBooleanResponse result =
     (case result of
        JBool b \<Rightarrow> (b, [])
      | JStr str \<Rightarrow>
          (let lower = toLowerCase str
           in (lower = ''true'' \<or> lower = ''1'' \<or> lower = ''success'', []))
      | JNum r \<Rightarrow> (r \<noteq> 0, [])
      | JNaN \<Rightarrow> (True, [])
      | JArr xs \<Rightarrow> (False, [])
      | JObj ps \<Rightarrow>
          (map_of ps ''success'' = Some (JBool True) \<or> map_of ps ''result'' = Some (JBool True), [])
      | _ \<Rightarrow> (False, [''Unexpected boolean response format:'']))"

text \<open>
  \<open>message.messageId!\<close>: the key under which the request is registered. A message
  without id would register under the key \<open>undefined\<close>; \<open>createMessage\<close> always
  gives one.
\<close>

definition the_messageId :: "BridgeMessage \<Rightarrow> string" where
  "the_messageId m = (case messageId m of Some i \<Rightarrow> i | None \<Rightarrow> ''undefined'')"

text \<open>
  The RPC methods try three calling conventions in order: the method of the
  \<open>Android\<close> object, the \<open>asyncBridge\<close> method, then the round trip through
  \<open>Android.receiveMessage\<close>.
\<close>

definition Android_getStudentList ::
    "nat \<Rightarrow> Window \<Rightarrow> AndroidBridge \<Rightarrow> jsval outcome \<times> AndroidBridge \<times> BridgeMessage list" where
  "Android_getStudentList now w s =
     (let direct =
            (case Android w of
               None \<Rightarrow> None
             | Some a \<Rightarrow>
                 (case android_getStudentList a of
                    None \<Rightarrow> None
                  | Some fn \<Rightarrow>
                      (case fn JUndefined of
                         Throws e \<Rightarrow> None
                       | Returns result \<Rightarrow> Some result)));
          shared =
            (case asyncBridge w of
               None \<Rightarrow> None
             | Some b \<Rightarrow>
                 (case async_getStudentList b of
                    None \<Rightarrow> None
                  | Some fn \<Rightarrow>
                      (case Android_callAsyncBridge w ''getStudentList'' JUndefined of
                         Throws e \<Rightarrow> None
                       | Returns result \<Rightarrow> Some result)));
          receive = (case Android w of None \<Rightarrow> None | Some a \<Rightarrow> android_receiveMessage a)
      in case direct of
           Some result \<Rightarrow> (Return (fst (Android_parseStudentListResponse w result)), updateLastActivity now s, [])
         | None \<Rightarrow>
             (case shared of
                Some result \<Rightarrow> (Return (fst (Android_parseStudentListResponse w result)), updateLastActivity now s, [])
              | None \<Rightarrow>
                  (case receive of
                     None \<Rightarrow> (Throw ''No method available to get student list'', s, [])
                   | Some fn \<Rightarrow>
                       (let (message, s1) = createMessage now ''getStudentList'' (JObj []) s;
                            (p, s2) = createPendingRequest (the_messageId message) 5000 s1
                        in case fn (message_json message) of
                             Throws e \<Rightarrow> (Throw e, s2, [])
                           | Returns v \<Rightarrow> (Await p, s2, [message])))))"

definition Android_studentRemoved ::
    "nat \<Rightarrow> Window \<Rightarrow> string \<Rightarrow> AndroidBridge \<Rightarrow>
     jsval outcome \<times> AndroidBridge \<times> BridgeMessage list" where
  "Android_studentRemoved now w sid s =
     (let direct =
            (case Android w of
               None \<Rightarrow> None
             | Some a \<Rightarrow>
                 (case android_studentRemoved a of
                    None \<Rightarrow> None
                  | Some fn \<Rightarrow>
                      (case fn (event_json sid) of
                         Throws e \<Rightarrow> None
                       | Returns result \<Rightarrow> Some result)));
          shared =
            (case asyncBridge w of
               None \<Rightarrow> None
             | Some b \<Rightarrow>
                 (case async_studentRemoved b of
                    None \<Rightarrow> None
                  | Some fn \<Rightarrow>
                      (case Android_callAsyncBridge w ''studentRemoved'' (event_json sid) of
                         Throws e \<Rightarrow> None
                       | Returns result \<Rightarrow> Some result)));
          receive = (case Android w of None \<Rightarrow> None | Some a \<Rightarrow> android_receiveMessage a)
      in case direct of
           Some result \<Rightarrow> (Return (JBool (fst (Android_parseBooleanResponse result))), updateLastActivity now s, [])
         | None \<Rightarrow>
             (case shared of
                Some result \<Rightarrow> (Return (JBool (fst (Android_parseBooleanResponse result))), updateLastActivity now s, [])
              | None \<Rightarrow>
                  (case receive of
                     None \<Rightarrow> (Throw ''No method available to notify student removed'', s, [])
                   | Some fn \<Rightarrow>
                       (let (message, s1) = createMessage now ''studentRemoved'' (event_json sid) s;
                            (p, s2) = createPendingRequest (the_messageId message) 5000 s1
                        in case fn (message_json message) of
                             Throws e \<Rightarrow> (Throw e, s2, [])
                           | Returns v \<Rightarrow> (Await p, s2, [message])))))"

section \<open>Browser-only strategy (strategies/WebBridge.ts)\<close>

text \<open>The seed roster; each name is the UTF-8 text of the source's string.\<close>

definition MOCK_STUDENTS :: "Student list" where
  "MOCK_STUDENTS =
     [
      \<lparr>studentId = ''1'',
       name = [CHR 0xE6, CHR 0xBC, CHR 0xA9, CHR 0xE6, CHR 0xB8, CHR 0xA6, CHR 0xE9,
           CHR 0xB3, CHR 0xB4, CHR 0xE4, CHR 0xBA, CHR 0xBA],
       seatNumber = Some ''1''\<rparr>,
      \<lparr>studentId = ''2'',
       name = [CHR 0xE5, CHR 0xAE, CHR 0x87, CHR 0xE6, CHR 0x99, CHR 0xBA, CHR 0xE6,
           CHR 0xB3, CHR 0xA2, CHR 0xE4, CHR 0xBD, CHR 0x90, CHR 0xE5, CHR 0x8A,
           CHR 0xA9],
       seatNumber = Some ''2''\<rparr>,
      \<lparr>studentId = ''3'',
       name = [CHR 0xE6, CHR 0x98, CHR 0xA5, CHR 0xE9, CHR 0x87, CHR 0x8E, CHR 0xE6,
           CHR 0xAB, CHR 0xBB],
       seatNumber = Some ''3''\<rparr>,
      \<lparr>studentId = ''4'',
       name = [CHR 0xE6, CHR 0x97, CHR 0x97, CHR 0xE6, CHR 0x9C, CHR 0xA8, CHR 0xE5,
           CHR 0x8D, CHR 0xA1, CHR 0xE5, CHR 0x8D, CHR 0xA1, CHR 0xE8, CHR 0xA5,
           CHR 0xBF],
       seatNumber = Some ''4''\<rparr>,
      \<lparr>studentId = ''5'',
       name = [CHR 0xE8, CHR 0xB7, CHR 0xAF, CHR 0xE9, CHR 0xA3, CHR 0x9B],
       seatNumber = Some ''5''\<rparr>,
      \<lparr>studentId = ''6'',
       name = [CHR 0xE7, CHR 0xB4, CHR 0xA2, CHR 0xE9, CHR 0x9A, CHR 0x86],
       seatNumber = Some ''6''\<rparr>,
      \<lparr>studentId = ''7'',
       name = [CHR 0xE5, CHR 0xA8, CHR 0x9C, CHR 0xE7, CHR 0xBE, CHR 0x8E],
       seatNumber = Some ''7''\<rparr>,
      \<lparr>studentId = ''8'',
       name = [CHR 0xE9, CHR 0xA6, CHR 0x99, CHR 0xE5, CHR 0x90, CHR 0x89, CHR 0xE5,
           CHR 0xA3, CHR 0xAB],
       seatNumber = Some ''8''\<rparr>,
      \<lparr>studentId = ''9'',
       name = [CHR 0xE8, CHR 0x92, CHR 0x99, CHR 0xE5, CHR 0x85, CHR 0xB6, CHR 0xC2,
           CHR 0xB7, CHR 0x44, CHR 0xC2, CHR 0xB7, CHR 0xE9, CHR 0xAD, CHR 0xAF,
           CHR 0xE5, CHR 0xA4, CHR 0xAB],
       seatNumber = Some ''9''\<rparr>,
      \<lparr>studentId = ''10'',
       name = [CHR 0xE5, CHR 0x96, CHR 0xAC, CHR 0xE5, CHR 0xB7, CHR 0xB4],
       seatNumber = Some ''10''\<rparr>,
      \<lparr>studentId = ''11'',
       name = [CHR 0xE8, CHR 0x89, CHR 0xBE, CHR 0xE6, CHR 0x96, CHR 0xAF],
       seatNumber = Some ''11''\<rparr>,
      \<lparr>studentId = ''12'',
       name = [CHR 0xE9, CHR 0xBB, CHR 0x91, CHR 0xE5, CHR 0xB4, CHR 0x8E, CHR 0xE4,
           CHR 0xB8, CHR 0x80, CHR 0xE8, CHR 0xAD, CHR 0xB7],
       seatNumber = Some ''12''\<rparr>,
      \<lparr>studentId = ''13'',
       name = [CHR 0xE6, CHR 0x9C, CHR 0xBD, CHR 0xE6, CHR 0x9C, CHR 0xA8, CHR 0xE9,
           CHR 0x9C, CHR 0xB2, CHR 0xE7, CHR 0x90, CHR 0xAA, CHR 0xE4, CHR 0xBA,
           CHR 0x9E],
       seatNumber = Some ''13''\<rparr>,
      \<lparr>studentId = ''14'',
       name = [CHR 0xE6, CHR 0x97, CHR 0xA5, CHR 0xE7, CHR 0x95, CHR 0xAA, CHR 0xE8,
           CHR 0xB0, CHR 0xB7, CHR 0xE5, CHR 0x86, CHR 0xAC, CHR 0xE7, CHR 0x8D,
           CHR 0x85, CHR 0xE9, CHR 0x83, CHR 0x8E],
       seatNumber = Some ''14''\<rparr>,
      \<lparr>studentId = ''15'',
       name = [CHR 0xE5, CHR 0xA4, CHR 0x9C, CHR 0xE7, CHR 0xA5, CHR 0x9E, CHR 0xE6,
           CHR 0x9C, CHR 0x88],
       seatNumber = Some ''15''\<rparr>,
      \<lparr>studentId = ''16'',
       name = ''L'',
       seatNumber = Some ''16''\<rparr>,
      \<lparr>studentId = ''17'',
       name = [CHR 0xE6, CHR 0x84, CHR 0x9B, CHR 0xE5, CHR 0xBE, CHR 0xB7, CHR 0xE8,
           CHR 0x8F, CHR 0xAF, CHR 0xC2, CHR 0xB7, CHR 0xE8, CHR 0x89, CHR 0xBE,
           CHR 0xE5, CHR 0x8A, CHR 0x9B, CHR 0xE5, CHR 0x85, CHR 0x8B],
       seatNumber = Some ''17''\<rparr>,
      \<lparr>studentId = ''18'',
       name = [CHR 0xE9, CHR 0x98, CHR 0xBF, CHR 0xE7, CHR 0x88, CHR 0xBE, CHR 0xE9,
           CHR 0xA6, CHR 0xAE, CHR 0xE6, CHR 0x96, CHR 0xAF, CHR 0xC2, CHR 0xB7,
           CHR 0xE8, CHR 0x89, CHR 0xBE, CHR 0xE5, CHR 0x8A, CHR 0x9B, CHR 0xE5,
           CHR 0x85, CHR 0x8B],
       seatNumber = Some ''18''\<rparr>,
      \<lparr>studentId = ''19'',
       name = [CHR 0xE6, CHR 0xA1, CHR 0x90, CHR 0xE4, CHR 0xBA, CHR 0xBA],
       seatNumber = Some ''19''\<rparr>,
      \<lparr>studentId = ''20'',
       name = [CHR 0xE4, CHR 0xBA, CHR 0x9E, CHR 0xE7, CHR 0xB5, CHR 0xB2, CHR 0xE5,
           CHR 0xA8, CHR 0x9C],
       seatNumber = Some ''20''\<rparr>]"

text \<open>
  \<open>removedStudents\<close> and \<open>selectedStudents\<close> are \<open>Set<string>\<close>: lists without
  repetition, in insertion order.
\<close>

record WebBridge = BridgeStrategy +
  mockStudents :: "Student list"
  removedStudents :: "string list"
  selectedStudents :: "string list"

text \<open>The message of the minimum-size error event, as UTF-8 text.\<close>

definition min_students_message :: string where
  "min_students_message =
     [CHR 0xE7, CHR 0x84, CHR 0xA1, CHR 0xE6, CHR 0xB3, CHR 0x95, CHR 0xE7,
      CHR 0xA7, CHR 0xBB, CHR 0xE9, CHR 0x99, CHR 0xA4, CHR 0xE5, CHR 0xAD,
      CHR 0xB8, CHR 0xE7, CHR 0x94, CHR 0x9F, CHR 0xEF, CHR 0xBC, CHR 0x9A,
      CHR 0xE8, CHR 0x87, CHR 0xB3, CHR 0xE5, CHR 0xB0, CHR 0x91, CHR 0xE9,
      CHR 0x9C, CHR 0x80, CHR 0xE8, CHR 0xA6, CHR 0x81, CHR 0xE4, CHR 0xBF,
      CHR 0x9D, CHR 0xE7, CHR 0x95, CHR 0x99, CHR 0x20, CHR 0x32, CHR 0x20,
      CHR 0xE5, CHR 0x90, CHR 0x8D, CHR 0xE5, CHR 0xAD, CHR 0xB8, CHR 0xE7,
      CHR 0x94, CHR 0x9F]"

definition activeStudents :: "WebBridge \<Rightarrow> Student list" where
  "activeStudents s = filter (\<lambda>st. studentId st \<notin> set (removedStudents s)) (mockStudents s)"

text \<open>
  \<open>connect\<close> suspends once, on the simulated delay: \<open>Web_connect_begin\<close> is the part
  before it, \<open>Web_connect_finish\<close> the part after it, with the result of the promise
  (\<open>None\<close>: fulfilled). Nothing in either part throws.
\<close>

definition Web_connect_begin :: "WebBridge \<Rightarrow> WebBridge \<times> bus_event list" where
  "Web_connect_begin s = updateConnectionStatus Connecting s"

definition Web_connect_finish ::
    "nat \<Rightarrow> WebBridge \<Rightarrow> string option \<times> WebBridge \<times> bus_event list" where
  "Web_connect_finish now s =
     (let (s1, e1) = updateConnectionStatus Connected s
      in (None, updateLastActivity now s1, e1))"

definition Web_connect :: "nat \<Rightarrow> WebBridge \<Rightarrow> string option \<times> WebBridge \<times> bus_event list" where
  "Web_connect now s =
     (let (s1, e1) = Web_connect_begin s;
          (r, s2, e2) = Web_connect_finish now s1
      in (r, s2, e1 @ e2))"

definition Web_disconnect :: "WebBridge \<Rightarrow> WebBridge \<times> bus_event list" where
  "Web_disconnect s =
     (let (s1, e1) = updateConnectionStatus Disconnected s
      in ((cleanup s1)\<lparr>mockStudents := MOCK_STUDENTS, removedStudents := [],
                         selectedStudents := []\<rparr>, e1))"

text \<open>
  The RPC methods return their result, the strategy and the events they publish. The
  events are published from a zero-delay timer, that is after the method has returned.
\<close>

definition Web_getStudentList :: "nat \<Rightarrow> WebBridge \<Rightarrow> Student list \<times> WebBridge \<times> bus_event list" where
  "Web_getStudentList now s =
     (let active = activeStudents s
      in (active, updateLastActivity now s,
          [(''getStudentListResponse'', JObj [(''data'', JArr (map student_json active))])]))"

definition Web_studentPicked ::
    "nat \<Rightarrow> string \<Rightarrow> WebBridge \<Rightarrow> bool \<times> WebBridge \<times> bus_event list" where
  "Web_studentPicked now sid s =
     (case find (\<lambda>st. studentId st = sid) (mockStudents s) of
        None \<Rightarrow> (False, s, [])
      | Some student \<Rightarrow>
          if sid \<in> set (removedStudents s) then (False, s, [])
          else (True,
                updateLastActivity now (s\<lparr>selectedStudents := set_add sid (selectedStudents s)\<rparr>),
                [(''studentPickedResponse'',
                  JObj [(''success'', JBool True), (''studentId'', JStr sid),
                        (''student'', student_json student)])]))"

definition Web_studentRemoved ::
    "nat \<Rightarrow> string \<Rightarrow> WebBridge \<Rightarrow> bool \<times> WebBridge \<times> bus_event list" where
  "Web_studentRemoved now sid s =
     (case find (\<lambda>st. studentId st = sid) (mockStudents s) of
        None \<Rightarrow> (False, s, [])
      | Some student \<Rightarrow>
          if sid \<in> set (removedStudents s) then (False, s, [])
          else if length (activeStudents s) \<le> 2 then
            (False, s,
             [(''error'',
               JObj [(''message'', JStr min_students_message),
                     (''code'', JStr ''MIN_STUDENTS_REQUIRED'')])])
          else (True,
                updateLastActivity now
                  (s\<lparr>removedStudents := set_add sid (removedStudents s),
                     selectedStudents := set_delete sid (selectedStudents s)\<rparr>),
                [(''studentRemovedResponse'',
                  JObj [(''success'', JBool True), (''studentId'', JStr sid),
                        (''student'', student_json student)])]))"

definition new_BridgeStrategy :: BridgeStrategy where
  "new_BridgeStrategy =
     \<lparr>connectionStatus = Disconnected, lastActivity = None, messageIdCounter = 0,
      pendingRequests = [], promises = [], timers = [], timerCounter = 0\<rparr>"

definition new_WindowsBridge :: WindowsBridge where
  "new_WindowsBridge =
     \<lparr>connectionStatus = Disconnected, lastActivity = None, messageIdCounter = 0,
      pendingRequests = [], promises = [], timers = [], timerCounter = 0,
      messageHandler = False\<rparr>"

definition new_AndroidBridge :: AndroidBridge where
  "new_AndroidBridge = new_BridgeStrategy"

definition new_WebBridge :: WebBridge where
  "new_WebBridge =
     \<lparr>connectionStatus = Disconnected, lastActivity = None, messageIdCounter = 0,
      pendingRequests = [], promises = [], timers = [], timerCounter = 0,
      mockStudents = MOCK_STUDENTS, removedStudents = [], selectedStudents = []\<rparr>"

section \<open>Bridge coordinator (BridgeService.ts)\<close>

text \<open>
  The coordinator refers to its strategy object; the objects it has constructed live
  in a store, and \<open>strategy\<close> is an address in it. \<open>published\<close> is what has been
  published on the one \<open>EventEmitter\<close> the coordinator shares with its strategies.
  A live retry timer is its delay; its callback is always \<open>this.connect()\<close>.
\<close>

datatype Strategy = SWindows WindowsBridge | SAndroid AndroidBridge | SWeb WebBridge

fun strategy_status :: "Strategy \<Rightarrow> ConnectionStatus" where
  "strategy_status (SWindows s) = connectionStatus s"
| "strategy_status (SAndroid s) = connectionStatus s"
| "strategy_status (SWeb s) = connectionStatus s"

fun platform_text :: "PlatformType \<Rightarrow> string" where
  "platform_text PWindows = ''windows''"
| "platform_text PAndroid = ''android''"
| "platform_text PElectron = ''electron''"
| "platform_text PWeb = ''web''"

record BridgeService =
  instances :: "Strategy list"
  strategy :: "nat option"
  platform :: PlatformType
  connectionRetryCount :: nat
  maxRetries :: nat
  retryTimeout :: "nat option"
  retryTimers :: "(nat \<times> nat) list"
  retryTimerCounter :: nat
  published :: "bus_event list"

definition new_BridgeService :: BridgeService where
  "new_BridgeService =
     \<lparr>instances = [], strategy = None, platform = PWeb, connectionRetryCount = 0,
      maxRetries = 3, retryTimeout = None, retryTimers = [], retryTimerCounter = 0,
      published = []\<rparr>"

definition createStrategy :: "PlatformType \<Rightarrow> Strategy" where
  "createStrategy p =
     (case p of
        PWindows \<Rightarrow> SWindows new_WindowsBridge
      | PAndroid \<Rightarrow> SAndroid new_AndroidBridge
      | _ \<Rightarrow> SWeb new_WebBridge)"

text \<open>
  \<open>connect\<close> is an \<open>async\<close> method with two suspension points. A call is, at any
  moment, suspended at \<open>await this.strategy.connect()\<close> in the \<open>try\<close> block (with
  the strategy object awaited and its promise: \<open>None\<close> while that is pending, then its
  result), suspended at the same \<open>await\<close> in the \<open>catch\<close> block, or finished.
\<close>

datatype ConnectCall =
    AwaitConnect nat "string option option"
  | AwaitFallback nat
  | Fulfilled
  | Failed string

text \<open>The call up to its first suspension.\<close>

definition connect_begin :: "nat \<Rightarrow> Window \<Rightarrow> BridgeService \<Rightarrow> ConnectCall \<times> BridgeService" where
  "connect_begin now w svc =
     (let detectionResult = detect w;
          svc1 = svc\<lparr>platform := det_platform detectionResult\<rparr>;
          a = length (instances svc1)
      in case createStrategy (det_platform detectionResult) of
           SWindows s \<Rightarrow>
             (let (r, s', ev) = Windows_connect now w s
              in (AwaitConnect a (Some r),
                  svc1\<lparr>instances := instances svc1 @ [SWindows s'], strategy := Some a,
                       published := published svc1 @ ev\<rparr>))
         | SAndroid s \<Rightarrow>
             (let (r, s', ev) = Android_connect now w s
              in (AwaitConnect a (Some r),
                  svc1\<lparr>instances := instances svc1 @ [SAndroid s'], strategy := Some a,
                       published := published svc1 @ ev\<rparr>))
         | SWeb s \<Rightarrow>
             (let (s', ev) = Web_connect_begin s
              in (AwaitConnect a None,
                  svc1\<lparr>instances := instances svc1 @ [SWeb s'], strategy := Some a,
                       published := published svc1 @ ev\<rparr>)))"

text \<open>The rest of the \<open>try\<close> block, after the strategy's promise fulfilled.\<close>

definition connect_succeeded :: "nat \<Rightarrow> BridgeService \<Rightarrow> ConnectCall \<times> BridgeService" where
  "connect_succeeded now svc =
     (Fulfilled,
      svc\<lparr>connectionRetryCount := 0,
          published := published svc @
            [(''connected'',
              JObj [(''platform'', JStr (platform_text (platform svc))),
                    (''timestamp'', JNum (real now))])]\<rparr>)"

text \<open>The \<open>catch\<close> block up to its \<open>await\<close>.\<close>

definition connect_failed :: "BridgeService \<Rightarrow> ConnectCall \<times> BridgeService" where
  "connect_failed svc =
     (if connectionRetryCount svc < maxRetries svc then
        (let n = connectionRetryCount svc + 1;
             t = retryTimerCounter svc + 1
         in (Fulfilled,
             svc\<lparr>connectionRetryCount := n, retryTimerCounter := t,
                 retryTimers := retryTimers svc @ [(t, 2000 * n)],
                 retryTimeout := Some t\<rparr>))
      else
        (let b = length (instances svc);
             (s', ev) = Web_connect_begin new_WebBridge
         in (AwaitFallback b,
             svc\<lparr>platform := PWeb, instances := instances svc @ [SWeb s'],
                 strategy := Some b, published := published svc @ ev\<rparr>)))"

text \<open>
  The continuation of a browser-only strategy's \<open>connect\<close> after its delay; the object
  at the address is a WebBridge whenever a call awaits it.
\<close>

definition finish_web :: "nat \<Rightarrow> nat \<Rightarrow> BridgeService \<Rightarrow> string option \<times> BridgeService" where
  "finish_web now a svc =
     (if a < length (instances svc) then
        (case instances svc ! a of
           SWeb s \<Rightarrow>
             (let (r, s', ev) = Web_connect_finish now s
              in (r, svc\<lparr>instances := (instances svc)[a := SWeb s'],
                         published := published svc @ ev\<rparr>))
         | _ \<Rightarrow> (None, svc))
      else (None, svc))"

text \<open>The call from one suspension to the next, or to its end.\<close>

definition connect_resume :: "nat \<Rightarrow> ConnectCall \<Rightarrow> BridgeService \<Rightarrow> ConnectCall \<times> BridgeService" where
  "connect_resume now c svc =
     (case c of
        AwaitConnect a None \<Rightarrow>
          (let (r, svc1) = finish_web now a svc
           in case r of
                None \<Rightarrow> connect_succeeded now svc1
              | Some e \<Rightarrow> connect_failed svc1)
      | AwaitConnect a (Some None) \<Rightarrow> connect_succeeded now svc
      | AwaitConnect a (Some (Some e)) \<Rightarrow> connect_failed svc
      | AwaitFallback b \<Rightarrow>
          (let (r, svc1) = finish_web now b svc
           in case r of
                None \<Rightarrow> (Fulfilled, svc1)
              | Some fallbackError \<Rightarrow> (Failed fallbackError, svc1))
      | Fulfilled \<Rightarrow> (Fulfilled, svc)
      | Failed e \<Rightarrow> (Failed e, svc))"

text \<open>A call of \<open>connect\<close> run to its end with nothing else running in between.\<close>

definition connect :: "nat \<Rightarrow> Window \<Rightarrow> BridgeService \<Rightarrow> ConnectCall \<times> BridgeService" where
  "connect now w svc =
     (let (c1, svc1) = connect_begin now w svc;
          (c2, svc2) = connect_resume now c1 svc1;
          (c3, svc3) = connect_resume now c2 svc2
      in (c3, svc3))"

definition isConnected :: "BridgeService \<Rightarrow> bool" where
  "isConnected svc =
     (case strategy svc of
        None \<Rightarrow> False
      | Some a \<Rightarrow> strategy_status (instances svc ! a) = Connected)"

text \<open>The strategy objects that are connecting or connected.\<close>

definition live_instances :: "BridgeService \<Rightarrow> nat list" where
  "live_instances svc =
     filter (\<lambda>a. strategy_status (instances svc ! a) = Connecting \<or>
                 strategy_status (instances svc ! a) = Connected)
       [0..<length (instances svc)]"

fun strategy_pendingRequests :: "Strategy \<Rightarrow> (string \<times> PendingRequest) list" where
  "strategy_pendingRequests (SWindows s) = pendingRequests s"
| "strategy_pendingRequests (SAndroid s) = pendingRequests s"
| "strategy_pendingRequests (SWeb s) = pendingRequests s"

fun strategy_promises :: "Strategy \<Rightarrow> settlement option list" where
  "strategy_promises (SWindows s) = promises s"
| "strategy_promises (SAndroid s) = promises s"
| "strategy_promises (SWeb s) = promises s"

fun strategy_timers :: "Strategy \<Rightarrow> (nat \<times> Timeout) list" where
  "strategy_timers (SWindows s) = timers s"
| "strategy_timers (SAndroid s) = timers s"
| "strategy_timers (SWeb s) = timers s"

fun strategy_pending_ok :: "Strategy \<Rightarrow> bool" where
  "strategy_pending_ok (SWindows s) = pending_ok s"
| "strategy_pending_ok (SAndroid s) = pending_ok s"
| "strategy_pending_ok (SWeb s) = pending_ok s"

text \<open>\<open>strategy.connect()\<close> run to its end, whichever strategy it is.\<close>

definition strategy_connect ::
    "nat \<Rightarrow> Window \<Rightarrow> Strategy \<Rightarrow> string option \<times> Strategy \<times> bus_event list" where
  "strategy_connect now w st =
     (case st of
        SWindows s \<Rightarrow> (let (r, s', ev) = Windows_connect now w s in (r, SWindows s', ev))
      | SAndroid s \<Rightarrow> (let (r, s', ev) = Android_connect now w s in (r, SAndroid s', ev))
      | SWeb s \<Rightarrow> (let (r, s', ev) = Web_connect now s in (r, SWeb s', ev)))"

definition strategy_disconnect :: "Strategy \<Rightarrow> Strategy \<times> bus_event list" where
  "strategy_disconnect st =
     (case st of
        SWindows s \<Rightarrow> (let (s', ev) = Windows_disconnect s in (SWindows s', ev))
      | SAndroid s \<Rightarrow> (let (s', ev) = Android_disconnect s in (SAndroid s', ev))
      | SWeb s \<Rightarrow> (let (s', ev) = Web_disconnect s in (SWeb s', ev)))"

definition disconnect :: "nat \<Rightarrow> BridgeService \<Rightarrow> BridgeService" where
  "disconnect now svc =
     (let svc1 =
            (case retryTimeout svc of
               None \<Rightarrow> svc
             | Some t \<Rightarrow>
                 if t = 0 then svc
                 else svc\<lparr>retryTimers := AList.delete t (retryTimers svc), retryTimeout := None\<rparr>);
          svc2 =
            (case strategy svc1 of
               None \<Rightarrow> svc1
             | Some a \<Rightarrow>
                 (let (st', ev) = strategy_disconnect (instances svc1 ! a)
                  in svc1\<lparr>instances := (instances svc1)[a := st'], strategy := None,
                          published := published svc1 @ ev\<rparr>))
      in svc2\<lparr>published := published svc2 @
           [(''disconnected'',
             JObj [(''platform'', JStr (platform_text (platform svc2))),
                   (''timestamp'', JNum (real now))])]\<rparr>)"

section \<open>Hosts used to run the bridge\<close>

text \<open>A plain browser: no host object at all.\<close>

definition browser_window :: Window where
  "browser_window =
     \<lparr>Windows_receiveMessage = None, chrome_webview = None, Android = None,
      asyncBridge = None, electronAPI = False,
      userAgent = ''Mozilla/5.0 (X11; Linux x86_64)'', JSON_parse = (\<lambda>str. None)\<rparr>"

text \<open>
  A desktop shell that accepts every message, inside which a mobile object with a
  \<open>receiveMessage\<close> method is exposed as well.
\<close>

definition accepting :: host_fn where
  "accepting = (\<lambda>v. Returns JUndefined)"

definition desktop_window :: Window where
  "desktop_window =
     browser_window\<lparr>Windows_receiveMessage := Some accepting,
       Android := Some \<lparr>android_receiveMessage = Some accepting, android_getStudentList = None,
                        android_studentPicked = None, android_studentRemoved = None\<rparr>\<rparr>"

text \<open>A desktop shell whose receive function throws on every message.\<close>

definition broken_desktop_window :: Window where
  "broken_desktop_window =
     browser_window\<lparr>Windows_receiveMessage := Some (\<lambda>v. Throws ''host is gone'')\<rparr>"

text \<open>A mobile shell whose \<open>studentRemoved\<close> method acknowledges every removal.\<close>

definition mobile_window :: Window where
  "mobile_window =
     browser_window\<lparr>Android :=
       Some \<lparr>android_receiveMessage = None, android_getStudentList = None,
             android_studentPicked = None,
             android_studentRemoved = Some (\<lambda>v. Returns (JBool True))\<rparr>\<rparr>"

text \<open>A desktop shell whose \<open>asyncBridge.studentRemoved\<close> acknowledges every removal.\<close>

definition desktop_async_window :: Window where
  "desktop_async_window =
     browser_window\<lparr>Windows_receiveMessage := Some accepting,
       asyncBridge :=
         Some \<lparr>async_getStudentList = None, async_studentPicked = None,
               async_studentRemoved = Some (\<lambda>v. Returns (JBool True))\<rparr>\<rparr>"

text \<open>A mobile shell that offers only the message round trip.\<close>

definition mobile_message_window :: Window where
  "mobile_message_window =
     browser_window\<lparr>Android :=
       Some \<lparr>android_receiveMessage = Some accepting, android_getStudentList = None,
             android_studentPicked = None, android_studentRemoved = None\<rparr>\<rparr>"

text \<open>A desktop shell that offers only its receive function.\<close>

definition desktop_message_window :: Window where
  "desktop_message_window = browser_window\<lparr>Windows_receiveMessage := Some accepting\<rparr>"

text \<open>Browser-only strategies whose roster is down to three and to two active entries.\<close>

definition three_left :: WebBridge where
  "three_left =
     new_WebBridge\<lparr>removedStudents :=
       [''20'', ''19'', ''18'', ''17'', ''16'', ''15'', ''14'', ''13'', ''12'',
        ''11'', ''10'', ''9'', ''8'', ''7'', ''6'', ''5'', ''4'']\<rparr>"

definition two_left :: WebBridge where
  "two_left = three_left\<lparr>removedStudents := removedStudents three_left @ [''3'']\<rparr>"

text \<open>
  A mobile and a desktop strategy after a \<open>getStudentList\<close> sent as a round trip at
  clock reading 1000, waiting for the reply.
\<close>

definition waiting_mobile :: AndroidBridge where
  "waiting_mobile =
     fst (snd (Android_getStudentList 1000 mobile_message_window new_AndroidBridge))"

definition waiting_desktop :: WindowsBridge where
  "waiting_desktop =
     fst (snd (Windows_getStudentList 1000 desktop_message_window new_WindowsBridge))"

text \<open>The reply of a host to \<open>getStudentList\<close>, carrying the given message id.\<close>

definition roster_reply :: "string \<Rightarrow> jsval" where
  "roster_reply mid =
     JObj [(''event'', JStr ''getStudentListResponse''), (''data'', JArr []),
           (''timestamp'', JNum 2000), (''messageId'', JStr mid)]"

text \<open>
  The coordinator after \<open>connect\<close> was called in a plain browser at clock reading 0
  and is suspended in its Connecting phase, and after \<open>connect\<close> was called a second
  time at clock reading 1, before the first call was resumed.
\<close>

definition connecting_service :: BridgeService where
  "connecting_service = snd (connect_begin 0 browser_window new_BridgeService)"

definition reentered_service :: BridgeService where
  "reentered_service = snd (connect_begin 1 browser_window connecting_service)"

section \<open>Properties of the event bus\<close>

lemma emitter_ok_lookup:
  "emitter_ok em \<Longrightarrow> map_of (listeners em) e = Some a \<Longrightarrow> a < length (sets em)"
  by (auto simp: emitter_ok_def list_all_iff dest: map_of_SomeD)

lemma set_add_idem: "set_add x (set_add x xs) = set_add x xs"
  by (simp add: set_add_def)

lemma set_delete_absent: "x \<notin> set (set_delete x xs)"
  by (simp add: set_delete_def)

lemma map_of_delete_same: "map_of (AList.delete k al) k = None"
  by (induction al) auto

lemma on_fresh:
  "map_of (listeners em) e = None \<Longrightarrow>
   on e h em = (Unsubscriber e (length (sets em)) h,
                em\<lparr>sets := sets em @ [[h]], listeners := listeners em @ [(e, length (sets em))]\<rparr>)"
  by (simp add: on_def Let_def set_add_def)

lemma on_known:
  "map_of (listeners em) e = Some a \<Longrightarrow>
   on e h em = (Unsubscriber e a h, em\<lparr>sets := (sets em)[a := set_add h (sets em ! a)]\<rparr>)"
  by (simp add: on_def)

lemma on_twice_state:
  assumes "emitter_ok em"
  shows "snd (on e h (snd (on e h em))) = snd (on e h em)"
proof (cases "map_of (listeners em) e")
  case None
  let ?em1 = "em\<lparr>sets := sets em @ [[h]], listeners := listeners em @ [(e, length (sets em))]\<rparr>"
  have "map_of (listeners ?em1) e = Some (length (sets em))"
    using None by (simp add: map_add_def)
  then have "on e h ?em1 =
      (Unsubscriber e (length (sets em)) h,
       ?em1\<lparr>sets := (sets ?em1)[length (sets em) := set_add h (sets ?em1 ! length (sets em))]\<rparr>)"
    by (rule on_known)
  then show ?thesis
    using None by (simp add: on_fresh set_add_def)
next
  case (Some a)
  with assms have a: "a < length (sets em)"
    by (rule emitter_ok_lookup)
  let ?em1 = "em\<lparr>sets := (sets em)[a := set_add h (sets em ! a)]\<rparr>"
  have "map_of (listeners ?em1) e = Some a"
    using Some by simp
  then have "on e h ?em1 = (Unsubscriber e a h, ?em1\<lparr>sets := (sets ?em1)[a := set_add h (sets ?em1 ! a)]\<rparr>)"
    by (rule on_known)
  then show ?thesis
    using Some a by (simp add: on_known set_add_idem)
qed

lemma on_twice_closure: "fst (on e h (snd (on e h em))) = fst (on e h em)"
proof (cases "map_of (listeners em) e")
  case None
  let ?em1 = "em\<lparr>sets := sets em @ [[h]], listeners := listeners em @ [(e, length (sets em))]\<rparr>"
  have "map_of (listeners ?em1) e = Some (length (sets em))"
    using None by (simp add: map_add_def)
  then have "fst (on e h ?em1) = Unsubscriber e (length (sets em)) h"
    by (simp add: on_known)
  then show ?thesis
    using None by (simp add: on_fresh)
next
  case (Some a)
  let ?em1 = "em\<lparr>sets := (sets em)[a := set_add h (sets em ! a)]\<rparr>"
  have "map_of (listeners ?em1) e = Some a"
    using Some by simp
  then have "fst (on e h ?em1) = Unsubscriber e a h"
    by (simp add: on_known)
  then show ?thesis
    using Some by (simp add: on_known)
qed

lemma on_then_unsubscribe:
  assumes "emitter_ok em"
  shows "h \<notin> set (emit_targets e (unsubscribe (fst (on e h em)) (snd (on e h em))))"
proof (cases "map_of (listeners em) e")
  case None
  then show ?thesis
    by (simp add: on_fresh Let_def emit_targets_def set_delete_def
        map_of_delete_same)
next
  case (Some a)
  with assms have "a < length (sets em)"
    by (rule emitter_ok_lookup)
  with Some show ?thesis
    by (auto simp: on_known Let_def emit_targets_def set_delete_def
        map_of_delete_same)
qed


lemma listenerCount_targets:
  "e \<noteq> [] \<Longrightarrow> listenerCount (Some e) em = length (emit_targets e em)"
  by (simp add: listenerCount_def emit_targets_def split: option.splits)

lemma on_targets:
  assumes "emitter_ok em"
  shows "emit_targets e (snd (on e h em)) = set_add h (emit_targets e em)"
proof (cases "map_of (listeners em) e")
  case None
  then show ?thesis
    by (simp add: on_fresh emit_targets_def map_add_def set_add_def)
next
  case (Some a)
  with assms have "a < length (sets em)"
    by (rule emitter_ok_lookup)
  with Some show ?thesis
    by (simp add: on_known emit_targets_def)
qed

lemma on_fresh_then_unsubscribe:
  assumes "emitter_ok em" and "h \<notin> set (emit_targets e em)"
  shows "emit_targets e (unsubscribe (fst (on e h em)) (snd (on e h em))) = emit_targets e em"
proof (cases "map_of (listeners em) e")
  case None
  then show ?thesis
    by (simp add: on_fresh Let_def emit_targets_def set_delete_def map_of_delete_same)
next
  case (Some a)
  with assms(1) have a: "a < length (sets em)"
    by (rule emitter_ok_lookup)
  from assms(2) Some have "h \<notin> set (sets em ! a)"
    by (simp add: emit_targets_def)
  then have same: "filter (\<lambda>y. y \<noteq> h) (sets em ! a) = sets em ! a"
    by (auto simp: filter_id_conv)
  from Some a \<open>h \<notin> set (sets em ! a)\<close> same show ?thesis
    by (simp add: on_known Let_def emit_targets_def set_delete_def set_add_def
        map_of_delete_same)
qed

text \<open>
  C9, as amended: registering the same handler twice for an event is permitted and
  leaves one registration. After the two calls the handler is among the handlers of
  the event; the second \<open>on\<close> changes nothing in the emitter and returns the same
  closure as the first. For a handler that was not registered before, the handlers of
  the event after the two calls are the earlier ones followed by the handler once, and
  the handler count of the event has grown by one, not by two. Invoking the unsubscribe
  function once removes the handler from the event and brings handlers and count back
  to what they were: no second registration stays active.
\<close>

theorem on_same_handler_twice:
  assumes "emitter_ok em"
  shows "snd (on e h (snd (on e h em))) = snd (on e h em) \<and>
         fst (on e h (snd (on e h em))) = fst (on e h em) \<and>
         listenerCount (Some e) (snd (on e h (snd (on e h em)))) =
           listenerCount (Some e) (snd (on e h em)) \<and>
         h \<in> set (emit_targets e (snd (on e h (snd (on e h em))))) \<and>
         h \<notin> set (emit_targets e
                 (unsubscribe (fst (on e h em)) (snd (on e h (snd (on e h em)))))) \<and>
         (h \<notin> set (emit_targets e em) \<longrightarrow>
            emit_targets e (snd (on e h (snd (on e h em)))) = emit_targets e em @ [h] \<and>
            emit_targets e
              (unsubscribe (fst (on e h (snd (on e h em)))) (snd (on e h (snd (on e h em))))) =
              emit_targets e em \<and>
            (e \<noteq> [] \<longrightarrow>
               listenerCount (Some e) (snd (on e h (snd (on e h em)))) =
                 Suc (listenerCount (Some e) em) \<and>
               listenerCount (Some e)
                 (unsubscribe (fst (on e h (snd (on e h em)))) (snd (on e h (snd (on e h em))))) =
                 listenerCount (Some e) em)) \<and>
         (h \<in> set (emit_targets e em) \<longrightarrow>
            emit_targets e (snd (on e h (snd (on e h em)))) = emit_targets e em)"
proof -
  have same: "snd (on e h (snd (on e h em))) = snd (on e h em)"
    using assms by (rule on_twice_state)
  have closure: "fst (on e h (snd (on e h em))) = fst (on e h em)"
    by (rule on_twice_closure)
  have gone: "h \<notin> set (emit_targets e (unsubscribe (fst (on e h em)) (snd (on e h em))))"
    using assms by (rule on_then_unsubscribe)
  have targets: "emit_targets e (snd (on e h em)) = set_add h (emit_targets e em)"
    using assms by (rule on_targets)
  have registered: "h \<in> set (emit_targets e (snd (on e h em)))"
    by (simp add: targets set_add_def)
  have fresh: "emit_targets e (snd (on e h em)) = emit_targets e em @ [h]"
    if "h \<notin> set (emit_targets e em)"
    using that by (simp add: targets set_add_def)
  have restored: "emit_targets e (unsubscribe (fst (on e h em)) (snd (on e h em))) = emit_targets e em"
    if "h \<notin> set (emit_targets e em)"
    using assms that by (rule on_fresh_then_unsubscribe)
  have known: "emit_targets e (snd (on e h em)) = emit_targets e em"
    if "h \<in> set (emit_targets e em)"
    using that by (simp add: targets set_add_def)
  show ?thesis
    unfolding same closure
    using gone registered fresh restored known
    by (auto simp: listenerCount_targets)
qed

theorem on_same_handler_twice_witness:
  "emitter_ok (new_EventEmitter :: nat EventEmitter) \<and>
   (7::nat) \<notin> set (emit_targets ''tick'' new_EventEmitter) \<and>
   ''tick'' \<noteq> [] \<and>
   snd (on ''tick'' (7::nat) (snd (on ''tick'' 7 new_EventEmitter))) =
     snd (on ''tick'' 7 new_EventEmitter) \<and>
   (7::nat) \<in> set (emit_targets ''tick'' (snd (on ''tick'' 7 (snd (on ''tick'' 7 new_EventEmitter))))) \<and>
   emit_targets ''tick'' (snd (on ''tick'' (7::nat) (snd (on ''tick'' 7 new_EventEmitter)))) =
     emit_targets ''tick'' new_EventEmitter @ [7] \<and>
   listenerCount (Some ''tick'') (snd (on ''tick'' (7::nat) (snd (on ''tick'' 7 new_EventEmitter)))) =
     Suc (listenerCount (Some ''tick'') (new_EventEmitter :: nat EventEmitter)) \<and>
   listenerCount (Some ''tick'')
     (unsubscribe (fst (on ''tick'' (7::nat) (snd (on ''tick'' 7 new_EventEmitter))))
        (snd (on ''tick'' 7 (snd (on ''tick'' 7 new_EventEmitter))))) =
     listenerCount (Some ''tick'') (new_EventEmitter :: nat EventEmitter) \<and>
   (7::nat) \<notin> set (emit_targets ''tick''
      (unsubscribe (fst (on ''tick'' 7 new_EventEmitter))
         (snd (on ''tick'' 7 (snd (on ''tick'' 7 new_EventEmitter))))))"
proof -
  have ok: "emitter_ok (new_EventEmitter :: nat EventEmitter)"
    by (simp add: emitter_ok_def new_EventEmitter_def)
  have fresh: "(7::nat) \<notin> set (emit_targets ''tick'' new_EventEmitter)"
    by (simp add: emit_targets_def new_EventEmitter_def)
  have name: "''tick'' \<noteq> []"
    by simp
  show ?thesis
    using ok fresh name on_same_handler_twice [OF ok, of "''tick''" 7] by blast
qed

text \<open>
  C9 as stated fails: after the same handler is registered twice on a fresh emitter the
  handler count of the event is 1, not 2, and after one of the two unsubscribe
  functions has run the event has no handler left.
\<close>

theorem on_same_handler_twice_counterexample:
  "listenerCount (Some ''tick'') (snd (on ''tick'' (7::nat) (snd (on ''tick'' 7 new_EventEmitter)))) = 1 \<and>
   listenerCount (Some ''tick'') (snd (on ''tick'' (7::nat) (snd (on ''tick'' 7 new_EventEmitter)))) \<noteq> 2 \<and>
   emit_targets ''tick''
     (unsubscribe (fst (on ''tick'' (7::nat) new_EventEmitter))
        (snd (on ''tick'' 7 (snd (on ''tick'' 7 new_EventEmitter))))) = [] \<and>
   listenerCount (Some ''tick'')
     (unsubscribe (fst (on ''tick'' (7::nat) new_EventEmitter))
        (snd (on ''tick'' 7 (snd (on ''tick'' 7 new_EventEmitter))))) = 0"
  by (simp add: on_def new_EventEmitter_def listenerCount_def emit_targets_def
      set_add_def set_delete_def Let_def)

section \<open>Properties of the environment detector\<close>

lemma detect_refines_rules:
  "first_match spec_rules (probes w) = Some (det_platform (detect w), confidence (detect w))"
  by (simp add: spec_rules_def probes_def detect_def)

text \<open>
  C3: for every host, \<open>detect\<close> returns the kind and confidence of the first of the
  eight rules of section 4.2 whose condition holds on the probe results. A desktop
  receive function together with a mobile object gives the desktop kind with High
  confidence, and when no probe matches the result is the browser-only kind with Low
  confidence and signal \<open>fallback\<close>.
\<close>

theorem detect_priority_cascade:
  "first_match spec_rules (probes w) = Some (det_platform (detect w), confidence (detect w)) \<and>
   (hasWindowsReceiveMessage w \<and> hasAndroidObject w \<longrightarrow>
      det_platform (detect w) = PWindows \<and> confidence (detect w) = High) \<and>
   (\<not> hasWindowsReceiveMessage w \<and> \<not> hasAndroidObject w \<and> \<not> hasAsyncBridge w \<and>
    \<not> hasChromeWebView w \<and> \<not> hasElectronAPI w \<longrightarrow>
      detect w = \<lparr>det_platform = PWeb, confidence = Low, detectionMethod = ''fallback''\<rparr>)"
proof (intro conjI impI)
  show "first_match spec_rules (probes w) = Some (det_platform (detect w), confidence (detect w))"
    by (rule detect_refines_rules)
next
  assume "hasWindowsReceiveMessage w \<and> hasAndroidObject w"
  then show "det_platform (detect w) = PWindows" and "confidence (detect w) = High"
    by (simp_all add: detect_def)
next
  assume "\<not> hasWindowsReceiveMessage w \<and> \<not> hasAndroidObject w \<and> \<not> hasAsyncBridge w \<and>
    \<not> hasChromeWebView w \<and> \<not> hasElectronAPI w"
  then show "detect w = \<lparr>det_platform = PWeb, confidence = Low, detectionMethod = ''fallback''\<rparr>"
    by (simp add: detect_def)
qed

theorem detect_priority_cascade_witness:
  "hasWindowsReceiveMessage desktop_window \<and> hasAndroidObject desktop_window \<and>
   first_match spec_rules (probes desktop_window) = Some (PWindows, High) \<and>
   det_platform (detect desktop_window) = PWindows \<and>
   confidence (detect desktop_window) = High \<and>
   \<not> hasWindowsReceiveMessage browser_window \<and> \<not> hasAndroidObject browser_window \<and>
   \<not> hasAsyncBridge browser_window \<and> \<not> hasChromeWebView browser_window \<and>
   \<not> hasElectronAPI browser_window \<and>
   detect browser_window = \<lparr>det_platform = PWeb, confidence = Low, detectionMethod = ''fallback''\<rparr>"
proof -
  have d: "hasWindowsReceiveMessage desktop_window \<and> hasAndroidObject desktop_window"
    by (simp add: hasWindowsReceiveMessage_def hasAndroidObject_def desktop_window_def
        browser_window_def)
  have b: "\<not> hasWindowsReceiveMessage browser_window \<and> \<not> hasAndroidObject browser_window \<and>
      \<not> hasAsyncBridge browser_window \<and> \<not> hasChromeWebView browser_window \<and>
      \<not> hasElectronAPI browser_window"
    by (simp add: hasWindowsReceiveMessage_def hasAndroidObject_def hasAsyncBridge_def
        hasChromeWebView_def hasElectronAPI_def browser_window_def)
  show ?thesis
    using d b detect_priority_cascade [of desktop_window]
      detect_priority_cascade [of browser_window]
    by simp
qed

section \<open>Properties of the response normalization\<close>

text \<open>
  C8 as stated fails: the desktop strategy's normalization has no branch for numbers
  and reads only the \<open>success\<close> field, so it maps the number 1 and an object whose
  \<open>result\<close> field alone is true to false; the mobile strategy's compares the fields
  with \<open>true\<close> itself, so an object whose \<open>success\<close> is the truthy value 1 gives false.
\<close>

theorem parseBooleanResponse_counterexample:
  "fst (Windows_parseBooleanResponse (JNum 1)) = JBool False \<and>
   fst (Windows_parseBooleanResponse (JObj [(''result'', JBool True)])) = JBool False \<and>
   truthy (JNum 1) \<and>
   fst (Android_parseBooleanResponse (JObj [(''success'', JNum 1)])) = False"
  by (simp add: Windows_parseBooleanResponse_def Android_parseBooleanResponse_def js_or_def)

text \<open>
  C8, as amended. Both normalizations are total (nothing is thrown) and map a boolean
  to itself. The mobile strategy's maps a string to true exactly when, in lower case,
  it is \<open>true\<close>, \<open>1\<close> or \<open>success\<close>, and every other string (\<open>false\<close> in any
  case among them) to false; the number 0 to false and every other number, \<open>NaN\<close>
  included, to true; an array to false; an object to true exactly when its \<open>success\<close>
  or its \<open>result\<close> field is \<open>true\<close>; \<open>undefined\<close> and \<open>null\<close> to false, and
  these two alone are logged with a warning. The desktop strategy's maps a string to
  true exactly when it is \<open>true\<close> in any case or is \<open>1\<close>, and every other string to
  false; every number and \<open>NaN\<close> to false; an array to false; an object to its
  \<open>success\<close> field when that is truthy and to false otherwise; \<open>undefined\<close> and
  \<open>null\<close> to false; and it logs nothing.
\<close>

theorem parseBooleanResponse_shapes:
  "fst (Android_parseBooleanResponse (JBool b)) = b \<and>
   fst (Windows_parseBooleanResponse (JBool b)) = JBool b \<and>
   fst (Android_parseBooleanResponse (JStr s)) =
     (toLowerCase s = ''true'' \<or> toLowerCase s = ''1'' \<or> toLowerCase s = ''success'') \<and>
   fst (Windows_parseBooleanResponse (JStr s)) = JBool (toLowerCase s = ''true'' \<or> s = ''1'') \<and>
   (toLowerCase s1 = ''true'' \<longrightarrow>
      fst (Android_parseBooleanResponse (JStr s1)) \<and>
      fst (Windows_parseBooleanResponse (JStr s1)) = JBool True) \<and>
   (toLowerCase s2 = ''false'' \<longrightarrow>
      \<not> fst (Android_parseBooleanResponse (JStr s2)) \<and>
      fst (Windows_parseBooleanResponse (JStr s2)) = JBool False) \<and>
   fst (Android_parseBooleanResponse (JStr ''1'')) \<and>
   fst (Windows_parseBooleanResponse (JStr ''1'')) = JBool True \<and>
   fst (Android_parseBooleanResponse (JNum r)) = (r \<noteq> 0) \<and>
   fst (Android_parseBooleanResponse JNaN) = True \<and>
   fst (Windows_parseBooleanResponse (JNum r)) = JBool False \<and>
   fst (Windows_parseBooleanResponse JNaN) = JBool False \<and>
   fst (Android_parseBooleanResponse (JArr xs)) = False \<and>
   fst (Windows_parseBooleanResponse (JArr xs)) = JBool False \<and>
   fst (Android_parseBooleanResponse (JObj ps)) =
     (map_of ps ''success'' = Some (JBool True) \<or> map_of ps ''result'' = Some (JBool True)) \<and>
   fst (Windows_parseBooleanResponse (JObj ps)) =
     (case map_of ps ''success'' of
        None \<Rightarrow> JBool False
      | Some v' \<Rightarrow> if truthy v' then v' else JBool False) \<and>
   (map_of ps ''success'' = Some v \<and> truthy v \<longrightarrow>
      fst (Windows_parseBooleanResponse (JObj ps)) = v) \<and>
   ((\<forall>v'. map_of ps ''success'' = Some v' \<longrightarrow> \<not> truthy v') \<longrightarrow>
      fst (Windows_parseBooleanResponse (JObj ps)) = JBool False) \<and>
   Android_parseBooleanResponse JUndefined = (False, [''Unexpected boolean response format:'']) \<and>
   Android_parseBooleanResponse JNull = (False, [''Unexpected boolean response format:'']) \<and>
   Windows_parseBooleanResponse JUndefined = (JBool False, []) \<and>
   Windows_parseBooleanResponse JNull = (JBool False, []) \<and>
   snd (Android_parseBooleanResponse x) =
     (if x = JUndefined \<or> x = JNull then [''Unexpected boolean response format:''] else []) \<and>
   snd (Windows_parseBooleanResponse x) = []"
proof -
  have strings_true: "toLowerCase s1 = ''true'' \<longrightarrow>
      fst (Android_parseBooleanResponse (JStr s1)) \<and>
      fst (Windows_parseBooleanResponse (JStr s1)) = JBool True"
    by (simp add: Android_parseBooleanResponse_def Windows_parseBooleanResponse_def)
  have strings_false: "toLowerCase s2 = ''false'' \<longrightarrow>
      \<not> fst (Android_parseBooleanResponse (JStr s2)) \<and>
      fst (Windows_parseBooleanResponse (JStr s2)) = JBool False"
    by (auto simp: Android_parseBooleanResponse_def Windows_parseBooleanResponse_def
        toLowerCase_def lower_char_def)
  have one: "fst (Android_parseBooleanResponse (JStr ''1'')) \<and>
      fst (Windows_parseBooleanResponse (JStr ''1'')) = JBool True"
    by (simp add: Android_parseBooleanResponse_def Windows_parseBooleanResponse_def
        toLowerCase_def lower_char_def)
  have object: "fst (Windows_parseBooleanResponse (JObj ps)) =
     (case map_of ps ''success'' of
        None \<Rightarrow> JBool False
      | Some v' \<Rightarrow> if truthy v' then v' else JBool False)"
    by (simp add: Windows_parseBooleanResponse_def js_or_def split: option.splits)
  have object_truthy: "map_of ps ''success'' = Some v \<and> truthy v \<longrightarrow>
      fst (Windows_parseBooleanResponse (JObj ps)) = v"
    by (simp add: Windows_parseBooleanResponse_def js_or_def)
  have object_falsy: "(\<forall>v'. map_of ps ''success'' = Some v' \<longrightarrow> \<not> truthy v') \<longrightarrow>
      fst (Windows_parseBooleanResponse (JObj ps)) = JBool False"
    by (auto simp: Windows_parseBooleanResponse_def js_or_def split: option.splits)
  have silent: "snd (Windows_parseBooleanResponse x) = []"
    by (simp add: Windows_parseBooleanResponse_def split: jsval.splits option.splits)
  have warned: "snd (Android_parseBooleanResponse x) =
     (if x = JUndefined \<or> x = JNull then [''Unexpected boolean response format:''] else [])"
    by (simp add: Android_parseBooleanResponse_def Let_def split: jsval.splits)
  have strings: "fst (Android_parseBooleanResponse (JStr s)) =
       (toLowerCase s = ''true'' \<or> toLowerCase s = ''1'' \<or> toLowerCase s = ''success'')"
      "fst (Windows_parseBooleanResponse (JStr s)) = JBool (toLowerCase s = ''true'' \<or> s = ''1'')"
    by (simp_all add: Android_parseBooleanResponse_def Windows_parseBooleanResponse_def Let_def)
  have rest: "fst (Android_parseBooleanResponse (JBool b)) = b"
      "fst (Windows_parseBooleanResponse (JBool b)) = JBool b"
      "fst (Android_parseBooleanResponse (JNum r)) = (r \<noteq> 0)"
      "fst (Android_parseBooleanResponse JNaN) = True"
      "fst (Windows_parseBooleanResponse (JNum r)) = JBool False"
      "fst (Windows_parseBooleanResponse JNaN) = JBool False"
      "fst (Android_parseBooleanResponse (JArr xs)) = False"
      "fst (Windows_parseBooleanResponse (JArr xs)) = JBool False"
      "fst (Android_parseBooleanResponse (JObj ps)) =
         (map_of ps ''success'' = Some (JBool True) \<or> map_of ps ''result'' = Some (JBool True))"
      "Android_parseBooleanResponse JUndefined = (False, [''Unexpected boolean response format:''])"
      "Android_parseBooleanResponse JNull = (False, [''Unexpected boolean response format:''])"
      "Windows_parseBooleanResponse JUndefined = (JBool False, [])"
      "Windows_parseBooleanResponse JNull = (JBool False, [])"
    by (simp_all add: Android_parseBooleanResponse_def Windows_parseBooleanResponse_def)
  show ?thesis
    by (intro conjI) (fact rest strings strings_true strings_false object object_truthy
        object_falsy silent warned one [THEN conjunct1] one [THEN conjunct2])+
qed

theorem parseBooleanResponse_shapes_witness:
  "toLowerCase ''TRUE'' = ''true'' \<and>
   fst (Android_parseBooleanResponse (JStr ''TRUE'')) \<and>
   fst (Windows_parseBooleanResponse (JStr ''TRUE'')) = JBool True \<and>
   toLowerCase ''False'' = ''false'' \<and>
   \<not> fst (Android_parseBooleanResponse (JStr ''False'')) \<and>
   fst (Windows_parseBooleanResponse (JStr ''False'')) = JBool False \<and>
   map_of [(''success'', JStr ''yes'')] ''success'' = Some (JStr ''yes'') \<and>
   truthy (JStr ''yes'') \<and>
   fst (Windows_parseBooleanResponse (JObj [(''success'', JStr ''yes'')])) = JStr ''yes'' \<and>
   fst (Windows_parseBooleanResponse (JObj [(''result'', JBool True)])) = JBool False \<and>
   fst (Android_parseBooleanResponse (JNum 1)) \<and>
   \<not> fst (Android_parseBooleanResponse (JNum 0))"
proof -
  have up: "toLowerCase ''TRUE'' = ''true''" and lo: "toLowerCase ''False'' = ''false''"
    by (simp_all add: toLowerCase_def lower_char_def)
  have yes: "map_of [(''success'', JStr ''yes'')] ''success'' = Some (JStr ''yes'') \<and>
      truthy (JStr ''yes'')"
    by simp
  have no: "\<forall>v'. map_of [(''result'', JBool True)] ''success'' = Some v' \<longrightarrow> \<not> truthy v'"
    by simp
  note first = parseBooleanResponse_shapes [of True "''TRUE''" "''TRUE''" "''False''" 1 "[]"
        "[(''success'', JStr ''yes'')]" "JStr ''yes''" JNull]
  note second = parseBooleanResponse_shapes [of True "''TRUE''" "''TRUE''" "''False''" 0 "[]"
        "[(''result'', JBool True)]" JNull JNull]
  show ?thesis
    using up lo yes no first second by simp
qed

section \<open>Properties of the browser-only strategy\<close>

lemma set_set_add: "set (set_add x xs) = insert x (set xs)"
  by (auto simp: set_add_def)

lemma find_studentId_None:
  "find (\<lambda>st. studentId st = sid) xs = None \<longleftrightarrow> sid \<notin> studentId ` set xs"
  by (induction xs) auto

lemma active_after_remove:
  assumes "distinct (map studentId xs)"
    and "sid \<in> studentId ` set (filter (\<lambda>st. studentId st \<notin> R) xs)"
  shows "Suc (length (filter (\<lambda>st. studentId st \<notin> insert sid R) xs)) =
         length (filter (\<lambda>st. studentId st \<notin> R) xs)"
  using assms
proof (induction xs)
  case Nil
  then show ?case by simp
next
  case (Cons x xs)
  show ?case
  proof (cases "studentId x = sid")
    case True
    with Cons.prems have "sid \<notin> studentId ` set xs" and "sid \<notin> R"
      by auto
    then have "filter (\<lambda>st. studentId st \<notin> insert sid R) xs =
        filter (\<lambda>st. studentId st \<notin> R) xs"
      by (intro filter_cong) auto
    with True \<open>sid \<notin> R\<close> show ?thesis by simp
  next
    case False
    with Cons show ?thesis by auto
  qed
qed

lemma Web_studentRemoved_rejects:
  assumes "length (activeStudents s) \<le> 2"
  shows "fst (Web_studentRemoved now sid s) = False"
    and "fst (snd (Web_studentRemoved now sid s)) = s"
  using assms by (simp_all add: Web_studentRemoved_def split: option.splits)

lemma Web_studentRemoved_error_event:
  assumes "length (activeStudents s) \<le> 2"
    and "sid \<in> studentId ` set (activeStudents s)"
  shows "snd (snd (Web_studentRemoved now sid s)) =
     [(''error'', JObj [(''message'', JStr min_students_message),
                        (''code'', JStr ''MIN_STUDENTS_REQUIRED'')])]"
proof -
  from assms(2) have "sid \<in> studentId ` set (mockStudents s)" and "sid \<notin> set (removedStudents s)"
    by (auto simp: activeStudents_def)
  then show ?thesis
    using assms(1)
    by (auto simp: Web_studentRemoved_def find_studentId_None split: option.splits)
qed

lemma Web_studentRemoved_accepts:
  assumes "distinct (map studentId (mockStudents s))"
    and "2 < length (activeStudents s)"
    and "sid \<in> studentId ` set (activeStudents s)"
  shows "fst (Web_studentRemoved now sid s) = True"
    and "Suc (length (activeStudents (fst (snd (Web_studentRemoved now sid s))))) =
         length (activeStudents s)"
proof -
  from assms(3) have present: "find (\<lambda>st. studentId st = sid) (mockStudents s) \<noteq> None"
    and fresh: "sid \<notin> set (removedStudents s)"
    by (auto simp: activeStudents_def find_studentId_None)
  from present fresh assms(2) show "fst (Web_studentRemoved now sid s) = True"
    by (auto simp: Web_studentRemoved_def)
  have "Suc (length (filter (\<lambda>st. studentId st \<notin> insert sid (set (removedStudents s)))
            (mockStudents s))) =
        length (filter (\<lambda>st. studentId st \<notin> set (removedStudents s)) (mockStudents s))"
    using assms(1,3) by (intro active_after_remove) (simp_all add: activeStudents_def)
  with present fresh assms(2)
  show "Suc (length (activeStudents (fst (snd (Web_studentRemoved now sid s))))) =
      length (activeStudents s)"
    by (auto simp: Web_studentRemoved_def activeStudents_def updateLastActivity_def
        set_set_add)
qed

lemma Web_studentRemoved_done:
  assumes "find (\<lambda>st. studentId st = sid) (mockStudents s) = Some student"
    and "sid \<notin> set (removedStudents s)"
    and "2 < length (activeStudents s)"
  shows "Web_studentRemoved now sid s =
     (True,
      updateLastActivity now
        (s\<lparr>removedStudents := set_add sid (removedStudents s),
           selectedStudents := set_delete sid (selectedStudents s)\<rparr>),
      [(''studentRemovedResponse'',
        JObj [(''success'', JBool True), (''studentId'', JStr sid),
              (''student'', student_json student)])])"
  using assms by (simp add: Web_studentRemoved_def)

lemma Web_studentRemoved_success_active:
  assumes "fst (Web_studentRemoved now sid s)"
  shows "2 < length (activeStudents s) \<and> sid \<in> studentId ` set (activeStudents s)"
proof -
  from assms have "find (\<lambda>st. studentId st = sid) (mockStudents s) \<noteq> None"
    and "sid \<notin> set (removedStudents s)" and "2 < length (activeStudents s)"
    by (auto simp: Web_studentRemoved_def split: option.splits if_splits)
  then show ?thesis
    by (auto simp: activeStudents_def find_studentId_None)
qed

lemma Android_studentRemoved_direct:
  assumes "Android w = Some a" and "android_studentRemoved a = Some f"
    and "f (event_json sid) = Returns v"
  shows "fst (Android_studentRemoved now w sid s) =
     Return (JBool (fst (Android_parseBooleanResponse v)))"
  using assms by (simp add: Android_studentRemoved_def Let_def)

lemma Windows_studentRemoved_direct:
  assumes "asyncBridge w = Some b" and "async_studentRemoved b = Some g"
    and "g (event_json sid) = Returns v"
  shows "fst (Windows_studentRemoved now w sid s) = Return (fst (Windows_parseBooleanResponse v))"
  using assms
  by (simp add: Windows_studentRemoved_def Windows_callAsyncBridge_def async_method_def
      event_json_def generateMessageId_def Let_def)

text \<open>
  C1, as amended: in the browser-only strategy, whose entries have distinct ids, a
  removal request is rejected whenever the active count is at or below 2: it returns
  false and leaves the strategy as it was, and when it names an active entry the error
  event with code \<open>MIN_STUDENTS_REQUIRED\<close> is published. Every successful removal
  leaves at least 2 active entries. Removing an active entry from a roster of exactly 3
  succeeds and leaves 2, and any removal on the resulting roster fails and leaves it
  unchanged at 2. The native strategies keep no roster and check no count: when the
  host's own removal method answers the call (\<open>Android.studentRemoved\<close> for the
  mobile strategy, \<open>asyncBridge.studentRemoved\<close> for the desktop strategy), the
  operation returns that answer as the strategy's boolean normalization maps it.
\<close>

theorem Web_studentRemoved_minimum_size:
  assumes "distinct (map studentId (mockStudents s))"
  shows "(length (activeStudents s) \<le> 2 \<longrightarrow>
            fst (Web_studentRemoved now sid s) = False \<and>
            fst (snd (Web_studentRemoved now sid s)) = s \<and>
            (sid \<in> studentId ` set (activeStudents s) \<longrightarrow>
               snd (snd (Web_studentRemoved now sid s)) =
                 [(''error'', JObj [(''message'', JStr min_students_message),
                                    (''code'', JStr ''MIN_STUDENTS_REQUIRED'')])])) \<and>
         (fst (Web_studentRemoved now sid s) \<longrightarrow>
            2 \<le> length (activeStudents (fst (snd (Web_studentRemoved now sid s))))) \<and>
         (length (activeStudents s) = 3 \<and> sid \<in> studentId ` set (activeStudents s) \<longrightarrow>
            fst (Web_studentRemoved now sid s) = True \<and>
            length (activeStudents (fst (snd (Web_studentRemoved now sid s)))) = 2 \<and>
            fst (Web_studentRemoved now' sid' (fst (snd (Web_studentRemoved now sid s)))) = False \<and>
            fst (snd (Web_studentRemoved now' sid' (fst (snd (Web_studentRemoved now sid s))))) =
              fst (snd (Web_studentRemoved now sid s))) \<and>
         (Android wa = Some a \<and> android_studentRemoved a = Some f \<and>
          f (event_json sid) = Returns v \<longrightarrow>
            fst (Android_studentRemoved now wa sid sa) =
              Return (JBool (fst (Android_parseBooleanResponse v)))) \<and>
         (asyncBridge ww = Some b \<and> async_studentRemoved b = Some g \<and>
          g (event_json sid) = Returns v' \<longrightarrow>
            fst (Windows_studentRemoved now ww sid sw) =
              Return (fst (Windows_parseBooleanResponse v')))"
proof (intro conjI impI)
  assume small: "length (activeStudents s) \<le> 2"
  then show "fst (Web_studentRemoved now sid s) = False"
    and "fst (snd (Web_studentRemoved now sid s)) = s"
    by (rule Web_studentRemoved_rejects)+
  assume "sid \<in> studentId ` set (activeStudents s)"
  with small show "snd (snd (Web_studentRemoved now sid s)) =
      [(''error'', JObj [(''message'', JStr min_students_message),
                         (''code'', JStr ''MIN_STUDENTS_REQUIRED'')])]"
    by (rule Web_studentRemoved_error_event)
next
  assume "fst (Web_studentRemoved now sid s)"
  then have "2 < length (activeStudents s)" and "sid \<in> studentId ` set (activeStudents s)"
    using Web_studentRemoved_success_active by blast+
  with assms
  have "Suc (length (activeStudents (fst (snd (Web_studentRemoved now sid s))))) =
      length (activeStudents s)"
    by (intro Web_studentRemoved_accepts)
  with \<open>2 < length (activeStudents s)\<close>
  show "2 \<le> length (activeStudents (fst (snd (Web_studentRemoved now sid s))))"
    by arith
next
  assume three: "length (activeStudents s) = 3 \<and> sid \<in> studentId ` set (activeStudents s)"
  then have big: "2 < length (activeStudents s)"
    and active: "sid \<in> studentId ` set (activeStudents s)"
    by simp_all
  from assms big active show "fst (Web_studentRemoved now sid s) = True"
    by (rule Web_studentRemoved_accepts)
  from assms big active
  have "Suc (length (activeStudents (fst (snd (Web_studentRemoved now sid s))))) =
      length (activeStudents s)"
    by (rule Web_studentRemoved_accepts)
  with three show two: "length (activeStudents (fst (snd (Web_studentRemoved now sid s)))) = 2"
    by simp
  then have small: "length (activeStudents (fst (snd (Web_studentRemoved now sid s)))) \<le> 2"
    by simp
  from small
  show "fst (Web_studentRemoved now' sid' (fst (snd (Web_studentRemoved now sid s)))) = False"
    by (rule Web_studentRemoved_rejects)
  from small
  show "fst (snd (Web_studentRemoved now' sid' (fst (snd (Web_studentRemoved now sid s))))) =
      fst (snd (Web_studentRemoved now sid s))"
    by (rule Web_studentRemoved_rejects)
next
  assume "Android wa = Some a \<and> android_studentRemoved a = Some f \<and>
      f (event_json sid) = Returns v"
  then show "fst (Android_studentRemoved now wa sid sa) =
      Return (JBool (fst (Android_parseBooleanResponse v)))"
    using Android_studentRemoved_direct [of wa a f sid v now sa] by blast
next
  assume "asyncBridge ww = Some b \<and> async_studentRemoved b = Some g \<and>
      g (event_json sid) = Returns v'"
  then show "fst (Windows_studentRemoved now ww sid sw) =
      Return (fst (Windows_parseBooleanResponse v'))"
    using Windows_studentRemoved_direct [of ww b g sid v' now sw] by blast
qed

theorem Web_studentRemoved_minimum_size_witness:
  "distinct (map studentId (mockStudents three_left)) \<and>
   length (activeStudents three_left) = 3 \<and>
   ''2'' \<in> studentId ` set (activeStudents three_left) \<and>
   fst (Web_studentRemoved 10 ''2'' three_left) = True \<and>
   length (activeStudents (fst (snd (Web_studentRemoved 10 ''2'' three_left)))) = 2 \<and>
   fst (Web_studentRemoved 20 ''1'' (fst (snd (Web_studentRemoved 10 ''2'' three_left)))) = False \<and>
   distinct (map studentId (mockStudents two_left)) \<and>
   length (activeStudents two_left) \<le> 2 \<and>
   ''1'' \<in> studentId ` set (activeStudents two_left) \<and>
   fst (Web_studentRemoved 10 ''1'' two_left) = False \<and>
   fst (snd (Web_studentRemoved 10 ''1'' two_left)) = two_left \<and>
   snd (snd (Web_studentRemoved 10 ''1'' two_left)) =
     [(''error'', JObj [(''message'', JStr min_students_message),
                        (''code'', JStr ''MIN_STUDENTS_REQUIRED'')])] \<and>
   Android mobile_window =
     Some \<lparr>android_receiveMessage = None, android_getStudentList = None,
           android_studentPicked = None,
           android_studentRemoved = Some (\<lambda>v. Returns (JBool True))\<rparr> \<and>
   fst (Android_studentRemoved 10 mobile_window ''1'' new_AndroidBridge) =
     Return (JBool (fst (Android_parseBooleanResponse (JBool True)))) \<and>
   asyncBridge desktop_async_window =
     Some \<lparr>async_getStudentList = None, async_studentPicked = None,
           async_studentRemoved = Some (\<lambda>v. Returns (JBool True))\<rparr> \<and>
   fst (Windows_studentRemoved 10 desktop_async_window ''1'' new_WindowsBridge) =
     Return (fst (Windows_parseBooleanResponse (JBool True)))"
proof -
  have d3: "distinct (map studentId (mockStudents three_left))"
    by (simp add: three_left_def new_WebBridge_def MOCK_STUDENTS_def)
  have a3: "length (activeStudents three_left) = 3 \<and>
      ''2'' \<in> studentId ` set (activeStudents three_left)"
    by (simp add: activeStudents_def three_left_def new_WebBridge_def MOCK_STUDENTS_def)
  have d2: "distinct (map studentId (mockStudents two_left))"
    by (simp add: two_left_def three_left_def new_WebBridge_def MOCK_STUDENTS_def)
  have a2: "length (activeStudents two_left) \<le> 2 \<and>
      ''1'' \<in> studentId ` set (activeStudents two_left)"
    by (simp add: activeStudents_def two_left_def three_left_def new_WebBridge_def
        MOCK_STUDENTS_def)
  let ?a = "\<lparr>android_receiveMessage = None, android_getStudentList = None,
           android_studentPicked = None,
           android_studentRemoved = Some (\<lambda>v. Returns (JBool True))\<rparr>"
  let ?b = "\<lparr>async_getStudentList = None, async_studentPicked = None,
           async_studentRemoved = Some (\<lambda>v. Returns (JBool True))\<rparr>"
  have mobile: "Android mobile_window = Some ?a \<and>
      android_studentRemoved ?a = Some (\<lambda>v. Returns (JBool True)) \<and>
      (\<lambda>v. Returns (JBool True)) (event_json ''1'') = Returns (JBool True)"
    by (simp add: mobile_window_def browser_window_def)
  have desktop: "asyncBridge desktop_async_window = Some ?b \<and>
      async_studentRemoved ?b = Some (\<lambda>v. Returns (JBool True)) \<and>
      (\<lambda>v. Returns (JBool True)) (event_json ''1'') = Returns (JBool True)"
    by (simp add: desktop_async_window_def browser_window_def)
  note three = Web_studentRemoved_minimum_size [OF d3, of 10 "''2''" 20 "''1''"
      mobile_window ?a "\<lambda>v. Returns (JBool True)" "JBool True" new_AndroidBridge
      desktop_async_window ?b "\<lambda>v. Returns (JBool True)" "JBool True" new_WindowsBridge]
  note two = Web_studentRemoved_minimum_size [OF d2, of 10 "''1''" 20 "''1''"
      mobile_window ?a "\<lambda>v. Returns (JBool True)" "JBool True" new_AndroidBridge
      desktop_async_window ?b "\<lambda>v. Returns (JBool True)" "JBool True" new_WindowsBridge]
  from mobile desktop two
  have native: "fst (Android_studentRemoved 10 mobile_window ''1'' new_AndroidBridge) =
        Return (JBool (fst (Android_parseBooleanResponse (JBool True))))"
      "fst (Windows_studentRemoved 10 desktop_async_window ''1'' new_WindowsBridge) =
        Return (fst (Windows_parseBooleanResponse (JBool True)))"
    by blast+
  from d3 a3 d2 a2 three two
  have web: "fst (Web_studentRemoved 10 ''2'' three_left) = True \<and>
      length (activeStudents (fst (snd (Web_studentRemoved 10 ''2'' three_left)))) = 2 \<and>
      fst (Web_studentRemoved 20 ''1'' (fst (snd (Web_studentRemoved 10 ''2'' three_left)))) = False \<and>
      fst (Web_studentRemoved 10 ''1'' two_left) = False \<and>
      fst (snd (Web_studentRemoved 10 ''1'' two_left)) = two_left \<and>
      snd (snd (Web_studentRemoved 10 ''1'' two_left)) =
        [(''error'', JObj [(''message'', JStr min_students_message),
                           (''code'', JStr ''MIN_STUDENTS_REQUIRED'')])]"
    by blast
  from d3 a3 d2 a2 web native mobile desktop show ?thesis
    by blast
qed

text \<open>
  C1 as stated fails for the native strategies, which keep no roster and check no
  count: the mobile strategy returns true as soon as the host's \<open>studentRemoved\<close>
  method answers true, and so does the desktop strategy on the answer of
  \<open>asyncBridge.studentRemoved\<close>, whatever roster the host holds; their RPC methods
  publish no event.
\<close>

theorem studentRemoved_native_counterexample:
  "fst (Android_studentRemoved 10 mobile_window ''1'' new_AndroidBridge) = Return (JBool True) \<and>
   fst (Windows_studentRemoved 10 desktop_async_window ''1'' new_WindowsBridge) =
     Return (JBool True)"
  by (simp add: Android_studentRemoved_def mobile_window_def browser_window_def
      Android_parseBooleanResponse_def Windows_studentRemoved_def desktop_async_window_def
      Windows_callAsyncBridge_def async_method_def event_json_def
      Windows_parseBooleanResponse_def generateMessageId_def Let_def)

text \<open>
  C7: in the browser-only strategy, after \<open>connect\<close> has succeeded, the roster fetched
  is the seed roster of 20 entries; a pick of \<open>5\<close> returns true and publishes the
  pick confirmation carrying the entry whose id is \<open>5\<close>; a removal of \<open>5\<close> then
  returns true and leaves 19 active entries; the same removal again returns false, with
  \<open>5\<close> among the removed ids.
\<close>

theorem Web_end_to_end:
  fixes t0 t1 t2 t3 t4 :: nat
  defines "s1 \<equiv> fst (snd (Web_connect t0 new_WebBridge))"
  defines "s2 \<equiv> fst (snd (Web_getStudentList t1 s1))"
  defines "s3 \<equiv> fst (snd (Web_studentPicked t2 ''5'' s2))"
  defines "s4 \<equiv> fst (snd (Web_studentRemoved t3 ''5'' s3))"
  shows "fst (Web_connect t0 new_WebBridge) = None \<and>
         connectionStatus s1 = Connected \<and>
         fst (Web_getStudentList t1 s1) = MOCK_STUDENTS \<and>
         length (fst (Web_getStudentList t1 s1)) = 20 \<and>
         fst (Web_studentPicked t2 ''5'' s2) = True \<and>
         snd (snd (Web_studentPicked t2 ''5'' s2)) =
           [(''studentPickedResponse'',
             JObj [(''success'', JBool True), (''studentId'', JStr ''5''),
                   (''student'', student_json (MOCK_STUDENTS ! 4))])] \<and>
         studentId (MOCK_STUDENTS ! 4) = ''5'' \<and>
         length (activeStudents s3) = 20 \<and>
         fst (Web_studentRemoved t3 ''5'' s3) = True \<and>
         length (activeStudents s4) = 19 \<and>
         ''5'' \<in> set (removedStudents s4) \<and>
         fst (Web_studentRemoved t4 ''5'' s4) = False \<and>
         length (activeStudents (fst (snd (Web_studentRemoved t4 ''5'' s4)))) = 19"
proof -
  have s1: "s1 = new_WebBridge\<lparr>connectionStatus := Connected, lastActivity := Some t0\<rparr>"
    by (simp add: s1_def Web_connect_def Web_connect_begin_def Web_connect_finish_def
        updateConnectionStatus_def updateLastActivity_def new_WebBridge_def)
  have s2: "s2 = s1\<lparr>lastActivity := Some t1\<rparr>"
    by (simp add: s2_def Web_getStudentList_def updateLastActivity_def Let_def)
  have five: "find (\<lambda>st. studentId st = ''5'') MOCK_STUDENTS = Some (MOCK_STUDENTS ! 4)"
    by (simp add: MOCK_STUDENTS_def)
  have s3: "s3 = s2\<lparr>selectedStudents := [''5''], lastActivity := Some t2\<rparr>"
    by (simp add: s3_def s2 s1 Web_studentPicked_def five updateLastActivity_def
        new_WebBridge_def set_add_def)
  have all: "activeStudents s3 = MOCK_STUDENTS"
    by (simp add: s3 s2 s1 activeStudents_def new_WebBridge_def)
  have len: "length MOCK_STUDENTS = 20"
    by (simp add: MOCK_STUDENTS_def)
  have fields3: "mockStudents s3 = MOCK_STUDENTS" "removedStudents s3 = []"
      "selectedStudents s3 = [''5'']"
    by (simp_all add: s3 s2 s1 new_WebBridge_def)
  have taken: "Web_studentRemoved t3 ''5'' s3 =
      (True,
       updateLastActivity t3
         (s3\<lparr>removedStudents := set_add ''5'' (removedStudents s3),
             selectedStudents := set_delete ''5'' (selectedStudents s3)\<rparr>),
       [(''studentRemovedResponse'',
         JObj [(''success'', JBool True), (''studentId'', JStr ''5''),
               (''student'', student_json (MOCK_STUDENTS ! 4))])])"
    by (rule Web_studentRemoved_done) (simp_all add: fields3 five all len)
  have s4: "s4 = s3\<lparr>removedStudents := [''5''], selectedStudents := [],
      lastActivity := Some t3\<rparr>"
    by (simp add: s4_def taken fields3 updateLastActivity_def set_add_def set_delete_def)
  have left: "length (activeStudents s4) = 19"
    by (simp add: s4 s3 s2 s1 activeStudents_def new_WebBridge_def MOCK_STUDENTS_def)
  have connected: "fst (Web_connect t0 new_WebBridge) = None \<and> connectionStatus s1 = Connected"
    by (simp add: s1 Web_connect_def Web_connect_begin_def Web_connect_finish_def
        updateConnectionStatus_def)
  have fetched: "fst (Web_getStudentList t1 s1) = MOCK_STUDENTS"
    by (simp add: Web_getStudentList_def s1 activeStudents_def new_WebBridge_def Let_def)
  have picked: "Web_studentPicked t2 ''5'' s2 =
      (True, s3,
       [(''studentPickedResponse'',
         JObj [(''success'', JBool True), (''studentId'', JStr ''5''),
               (''student'', student_json (MOCK_STUDENTS ! 4))])])"
    by (simp add: s3 s2 s1 Web_studentPicked_def five updateLastActivity_def
        new_WebBridge_def set_add_def)
  have removed: "fst (Web_studentRemoved t3 ''5'' s3) = True"
    by (simp add: taken)
  have again: "Web_studentRemoved t4 ''5'' s4 = (False, s4, [])"
    by (simp add: Web_studentRemoved_def s4 s3 s2 s1 five new_WebBridge_def)
  have id5: "studentId (MOCK_STUDENTS ! 4) = ''5''"
    by (simp add: MOCK_STUDENTS_def)
  show ?thesis
    using connected fetched picked removed again left all len id5
    by (simp add: s4)
qed


section \<open>Properties of the pending request table\<close>

lemma pending_ok_entry:
  assumes "pending_ok s" and "map_of (pendingRequests s) mid = Some pr"
  shows "promise pr < length (promises s)" and "promises s ! promise pr = None"
    and "\<exists>t. map_of (timers s) (timeout pr) = Some t \<and> t_messageId t = mid \<and>
             t_promise t = promise pr"
proof -
  from assms(2) have "(mid, pr) \<in> set (pendingRequests s)"
    by (rule map_of_SomeD)
  with assms(1) have entry: "promise pr < length (promises s) \<and> promises s ! promise pr = None \<and>
      (case map_of (timers s) (timeout pr) of
         None \<Rightarrow> False
       | Some t \<Rightarrow> t_messageId t = mid \<and> t_promise t = promise pr)"
    by (auto simp: pending_ok_def list_all_iff)
  then show "promise pr < length (promises s)" and "promises s ! promise pr = None"
    by simp_all
  from entry show "\<exists>t. map_of (timers s) (timeout pr) = Some t \<and> t_messageId t = mid \<and>
      t_promise t = promise pr"
    by (cases "map_of (timers s) (timeout pr)") simp_all
qed

lemma settle_pending: "p < length ps \<Longrightarrow> ps ! p = None \<Longrightarrow> settle p v ps ! p = Some v"
  by (simp add: settle_def)

lemma handleMessage_unknown_id:
  assumes "map_of (pendingRequests s) mid = None"
    and "get_prop d ''messageId'' = Some (JStr mid)"
  shows "fst (handleMessage d s) = s"
  using assms
  by (simp add: handleMessage_def Let_def split: option.splits jsval.splits)

lemma fire_timeout_live:
  assumes "map_of (timers s) t = Some c"
  shows "fire_timeout t s =
     s\<lparr>timers := AList.delete t (timers s),
       pendingRequests := AList.delete (t_messageId c) (pendingRequests s),
       promises :=
         settle (t_promise c)
           (Rejected (''Request timeout after '' @ show_nat (t_ms c) @ ''ms'')) (promises s)\<rparr>"
  using assms by (simp add: fire_timeout_def)

text \<open>
  C5: a pending request whose timeout runs (no matching response has cleared it) has
  its promise rejected with the timeout error naming the configured duration, and its
  entry leaves the table; a message that arrives afterwards with that correlation id
  changes neither the table nor any promise.
\<close>

theorem timeout_rejects_and_forgets:
  assumes "pending_ok s"
    and "map_of (pendingRequests s) mid = Some pr"
    and "map_of (timers s) (timeout pr) = Some c"
  shows "promises (fire_timeout (timeout pr) s) ! promise pr =
           Some (Rejected (''Request timeout after '' @ show_nat (t_ms c) @ ''ms'')) \<and>
         map_of (pendingRequests (fire_timeout (timeout pr) s)) mid = None \<and>
         (get_prop d ''messageId'' = Some (JStr mid) \<longrightarrow>
            fst (handleMessage d (fire_timeout (timeout pr) s)) = fire_timeout (timeout pr) s)"
proof -
  from assms(1,2) have range: "promise pr < length (promises s)"
    and unsettled: "promises s ! promise pr = None"
    and "\<exists>t. map_of (timers s) (timeout pr) = Some t \<and> t_messageId t = mid \<and>
           t_promise t = promise pr"
    by (rule pending_ok_entry)+
  with assms(3) have c: "t_messageId c = mid" "t_promise c = promise pr"
    by auto
  have fired: "fire_timeout (timeout pr) s =
     s\<lparr>timers := AList.delete (timeout pr) (timers s),
       pendingRequests := AList.delete mid (pendingRequests s),
       promises :=
         settle (promise pr)
           (Rejected (''Request timeout after '' @ show_nat (t_ms c) @ ''ms'')) (promises s)\<rparr>"
    using fire_timeout_live [OF assms(3)] c by simp
  have rejected: "promises (fire_timeout (timeout pr) s) ! promise pr =
      Some (Rejected (''Request timeout after '' @ show_nat (t_ms c) @ ''ms''))"
    using range unsettled by (simp add: fired settle_pending)
  have forgotten: "map_of (pendingRequests (fire_timeout (timeout pr) s)) mid = None"
    by (simp add: fired map_of_delete_same)
  have late: "get_prop d ''messageId'' = Some (JStr mid) \<longrightarrow>
      fst (handleMessage d (fire_timeout (timeout pr) s)) = fire_timeout (timeout pr) s"
    using forgotten by (auto intro: handleMessage_unknown_id)
  from rejected forgotten late show ?thesis
    by blast
qed

lemma fold_settle_length:
  "length (fold (\<lambda>kv. settle (promise (snd kv)) v) xs ps) = length ps"
  by (induction xs arbitrary: ps) (simp_all add: settle_def)

lemma fold_settle_keeps:
  "p < length ps \<Longrightarrow> ps ! p = Some v \<Longrightarrow>
   fold (\<lambda>kv. settle (promise (snd kv)) v') xs ps ! p = Some v"
proof (induction xs arbitrary: ps)
  case Nil
  then show ?case by simp
next
  case (Cons x xs)
  have "p < length (settle (promise (snd x)) v' ps)"
    using Cons.prems by (simp add: settle_def)
  moreover have "settle (promise (snd x)) v' ps ! p = Some v"
    using Cons.prems by (auto simp: settle_def nth_list_update)
  ultimately show ?case
    using Cons.IH by simp
qed

lemma fold_settle_all:
  "kv \<in> set xs \<Longrightarrow> promise (snd kv) < length ps \<Longrightarrow> ps ! promise (snd kv) = None \<Longrightarrow>
   fold (\<lambda>kv. settle (promise (snd kv)) v) xs ps ! promise (snd kv) = Some v"
proof (induction xs arbitrary: ps)
  case Nil
  then show ?case by simp
next
  case (Cons x xs)
  let ?ps = "settle (promise (snd x)) v ps"
  have len: "promise (snd kv) < length ?ps"
    using Cons.prems by (simp add: settle_def)
  show ?case
  proof (cases "promise (snd x) = promise (snd kv)")
    case True
    then have "?ps ! promise (snd kv) = Some v"
      using Cons.prems by (simp add: settle_pending)
    with len show ?thesis
      by (simp add: fold_settle_keeps)
  next
    case False
    then have none: "?ps ! promise (snd kv) = None"
      using Cons.prems by (auto simp: settle_def nth_list_update)
    from False Cons.prems have "kv \<in> set xs"
      by auto
    from Cons.IH [OF this len none] show ?thesis
      by simp
  qed
qed

lemma cleanup_fold_fields:
  "promises (fold cleanup_entry xs s) =
     fold (\<lambda>kv. settle (promise (snd kv)) (Rejected ''Connection closed'')) xs (promises s)"
  "connectionStatus (fold cleanup_entry xs s) = connectionStatus s"
  by (induction xs arbitrary: s) (simp_all add: cleanup_entry_def)

lemma cleanup_rejects:
  assumes "pending_ok s" and "kv \<in> set (pendingRequests s)"
  shows "promises (cleanup s) ! promise (snd kv) = Some (Rejected ''Connection closed'')"
proof -
  from assms have "promise (snd kv) < length (promises s)"
    and "promises s ! promise (snd kv) = None"
    by (auto simp: pending_ok_def list_all_iff)
  with assms(2) show ?thesis
    by (simp add: cleanup_def cleanup_fold_fields fold_settle_all)
qed

lemma cleanup_empties: "pendingRequests (cleanup s) = []"
  by (simp add: cleanup_def)

lemma strategy_disconnect_fields:
  "strategy_pendingRequests (fst (strategy_disconnect st)) = []"
  "strategy_pending_ok st \<Longrightarrow> kv \<in> set (strategy_pendingRequests st) \<Longrightarrow>
   strategy_promises (fst (strategy_disconnect st)) ! promise (snd kv) =
     Some (Rejected ''Connection closed'')"
proof -
  show "strategy_pendingRequests (fst (strategy_disconnect st)) = []"
    by (cases st)
       (simp_all add: strategy_disconnect_def Windows_disconnect_def Android_disconnect_def
        Web_disconnect_def updateConnectionStatus_def cleanup_empties)
next
  assume ok: "strategy_pending_ok st" and kv: "kv \<in> set (strategy_pendingRequests st)"
  show "strategy_promises (fst (strategy_disconnect st)) ! promise (snd kv) =
     Some (Rejected ''Connection closed'')"
  proof (cases st)
    case (SWindows s)
    let ?s = "s\<lparr>connectionStatus := Disconnected, messageHandler := False\<rparr>"
    from ok kv SWindows have "pending_ok ?s" and "kv \<in> set (pendingRequests ?s)"
      by (simp_all add: pending_ok_def)
    then have "promises (cleanup ?s) ! promise (snd kv) = Some (Rejected ''Connection closed'')"
      by (rule cleanup_rejects)
    with SWindows show ?thesis
      by (simp add: strategy_disconnect_def Windows_disconnect_def updateConnectionStatus_def)
  next
    case (SAndroid s)
    let ?s = "s\<lparr>connectionStatus := Disconnected\<rparr>"
    from ok kv SAndroid have "pending_ok ?s" and "kv \<in> set (pendingRequests ?s)"
      by (simp_all add: pending_ok_def)
    then have "promises (cleanup ?s) ! promise (snd kv) = Some (Rejected ''Connection closed'')"
      by (rule cleanup_rejects)
    with SAndroid show ?thesis
      by (simp add: strategy_disconnect_def Android_disconnect_def updateConnectionStatus_def)
  next
    case (SWeb s)
    let ?s = "s\<lparr>connectionStatus := Disconnected\<rparr>"
    from ok kv SWeb have "pending_ok ?s" and "kv \<in> set (pendingRequests ?s)"
      by (simp_all add: pending_ok_def)
    then have "promises (cleanup ?s) ! promise (snd kv) = Some (Rejected ''Connection closed'')"
      by (rule cleanup_rejects)
    with SWeb show ?thesis
      by (simp add: strategy_disconnect_def Web_disconnect_def updateConnectionStatus_def)
  qed
qed

lemma strategy_connect_keeps_table:
  "strategy_pendingRequests (fst (snd (strategy_connect now w st))) = strategy_pendingRequests st"
proof (cases st)
  case (SWindows s)
  then show ?thesis
    by (simp add: strategy_connect_def Windows_connect_def Windows_setupListeners_def
        updateConnectionStatus_def updateLastActivity_def createMessage_def
        generateMessageId_def Let_def
        split: option.splits reply.splits prod.splits)
next
  case (SAndroid s)
  then show ?thesis
    by (simp add: strategy_connect_def Android_connect_def updateConnectionStatus_def
        updateLastActivity_def Let_def)
next
  case (SWeb s)
  then show ?thesis
    by (simp add: strategy_connect_def Web_connect_def Web_connect_begin_def
        Web_connect_finish_def updateConnectionStatus_def updateLastActivity_def Let_def)
qed

text \<open>
  C6: for each of the three strategies, \<open>disconnect\<close> called with N requests pending
  rejects the promise of each of the N with the reason \<open>Connection closed\<close> and
  empties the table, and a \<open>connect\<close> that follows starts with the table empty.
\<close>

theorem disconnect_rejects_all_pending:
  assumes "strategy_pending_ok st"
  shows "strategy_pendingRequests (fst (strategy_disconnect st)) = [] \<and>
         (\<forall>kv \<in> set (strategy_pendingRequests st).
            strategy_promises (fst (strategy_disconnect st)) ! promise (snd kv) =
              Some (Rejected ''Connection closed'')) \<and>
         length (filter (\<lambda>kv. strategy_promises (fst (strategy_disconnect st)) ! promise (snd kv) =
                           Some (Rejected ''Connection closed''))
                   (strategy_pendingRequests st)) =
           length (strategy_pendingRequests st) \<and>
         strategy_pendingRequests
           (fst (snd (strategy_connect now w (fst (strategy_disconnect st))))) = []"
proof -
  have all: "\<forall>kv \<in> set (strategy_pendingRequests st).
      strategy_promises (fst (strategy_disconnect st)) ! promise (snd kv) =
        Some (Rejected ''Connection closed'')"
    using assms by (simp add: strategy_disconnect_fields)
  then have "filter (\<lambda>kv. strategy_promises (fst (strategy_disconnect st)) ! promise (snd kv) =
                           Some (Rejected ''Connection closed''))
                   (strategy_pendingRequests st) = strategy_pendingRequests st"
    by (simp add: filter_id_conv)
  with all show ?thesis
    by (simp add: strategy_disconnect_fields strategy_connect_keeps_table)
qed


section \<open>The table invariant\<close>

lemma table_inv_entry:
  assumes "table_inv s" and "map_of (pendingRequests s) mid = Some pr"
  obtains c where "(timeout pr, c) \<in> set (timers s)" and "map_of (timers s) (timeout pr) = Some c"
    and "t_messageId c = mid" and "t_promise c = promise pr"
    and "promise pr < length (promises s)" and "promises s ! promise pr = None"
proof -
  from assms have ok: "pending_ok s"
    by (simp add: table_inv_def)
  from pending_ok_entry [OF ok assms(2)]
  obtain c where c: "map_of (timers s) (timeout pr) = Some c" "t_messageId c = mid"
      "t_promise c = promise pr"
    and p: "promise pr < length (promises s)" "promises s ! promise pr = None"
    by blast
  from c(1) have "(timeout pr, c) \<in> set (timers s)"
    by (rule map_of_SomeD)
  with c p that show thesis
    by blast
qed

lemma table_inv_timer_promise:
  assumes "table_inv s" and "(t, c) \<in> set (timers s)" and "(t', c') \<in> set (timers s)"
    and "t_promise c = t_promise c'"
  shows "t = t'"
proof -
  from assms(1) have "inj_on (\<lambda>tc. t_promise (snd tc)) (set (timers s))"
    by (simp add: table_inv_def distinct_map)
  from inj_onD [OF this _ assms(2,3)] assms(4) show ?thesis
    by simp
qed

lemma pending_okI:
  assumes "\<And>mid pr. (mid, pr) \<in> set (pendingRequests s) \<Longrightarrow>
      promise pr < length (promises s) \<and> promises s ! promise pr = None \<and>
      (\<exists>c. map_of (timers s) (timeout pr) = Some c \<and> t_messageId c = mid \<and>
           t_promise c = promise pr)"
    and "\<And>t c. (t, c) \<in> set (timers s) \<Longrightarrow> t \<le> timerCounter s"
  shows "pending_ok s"
  unfolding pending_ok_def list_all_iff
proof (intro conjI ballI)
  fix kv assume "kv \<in> set (pendingRequests s)"
  then have "(fst kv, snd kv) \<in> set (pendingRequests s)"
    by simp
  from assms(1) [OF this] show "case kv of (mid, pr) \<Rightarrow>
      promise pr < length (promises s) \<and> promises s ! promise pr = None \<and>
      (case map_of (timers s) (timeout pr) of
         None \<Rightarrow> False
       | Some t \<Rightarrow> t_messageId t = mid \<and> t_promise t = promise pr)"
    by (cases kv) auto
next
  fix tc assume "tc \<in> set (timers s)"
  then have "(fst tc, snd tc) \<in> set (timers s)"
    by simp
  from assms(2) [OF this] show "case tc of (t, c) \<Rightarrow> t \<le> timerCounter s"
    by (cases tc) simp
qed

lemma pending_ok_timer_bound:
  "pending_ok s \<Longrightarrow> (t, c) \<in> set (timers s) \<Longrightarrow> t \<le> timerCounter s"
  by (auto simp: pending_ok_def list_all_iff)

lemma set_delete_subset: "set (AList.delete k al) \<subseteq> set al"
  by (auto simp: AList.delete_eq)

lemma in_set_delete: "(k', v) \<in> set (AList.delete k al) \<longleftrightarrow> (k', v) \<in> set al \<and> k' \<noteq> k"
  by (auto simp: AList.delete_eq)

lemma distinct_promise_delete:
  "distinct (map (\<lambda>tc. t_promise (snd tc)) tm) \<Longrightarrow>
   distinct (map (\<lambda>tc. t_promise (snd tc)) (AList.delete t tm))"
  by (simp add: AList.delete_eq distinct_map_filter)

lemma settle_length: "length (settle p v ps) = length ps"
  by (simp add: settle_def)

lemma settle_other: "q \<noteq> p \<Longrightarrow> settle p v ps ! q = ps ! q"
  by (simp add: settle_def)

text \<open>
  Removing the entry of a key together with one live timeout whose closure names that
  key, and settling the promise of that closure, keeps the invariant: this is what a
  matching response, a rejection and a timeout do.
\<close>

lemma table_inv_remove:
  assumes inv: "table_inv s"
    and live: "map_of (timers s) t = Some c"
  shows "table_inv
     (s\<lparr>timers := AList.delete t (timers s),
        promises := settle (t_promise c) v (promises s),
        pendingRequests := AList.delete (t_messageId c) (pendingRequests s)\<rparr>)"
    (is "table_inv ?s'")
proof -
  from inv have ok: "pending_ok s" and keys: "distinct (map fst (pendingRequests s))"
    and dist: "distinct (map (\<lambda>tc. t_promise (snd tc)) (timers s))"
    and range: "list_all (\<lambda>(t, c). t_promise c < length (promises s)) (timers s)"
    by (simp_all add: table_inv_def)
  from live have timer: "(t, c) \<in> set (timers s)"
    by (rule map_of_SomeD)
  have "pending_ok ?s'"
  proof (rule pending_okI)
    fix mid pr assume "(mid, pr) \<in> set (pendingRequests ?s')"
    then have mem: "(mid, pr) \<in> set (pendingRequests s)" and other: "mid \<noteq> t_messageId c"
      by (simp_all add: in_set_delete)
    from mem keys have "map_of (pendingRequests s) mid = Some pr"
      by simp
    from table_inv_entry [OF inv this]
    obtain c' where c': "(timeout pr, c') \<in> set (timers s)"
        "map_of (timers s) (timeout pr) = Some c'" "t_messageId c' = mid"
        "t_promise c' = promise pr"
      and p: "promise pr < length (promises s)" "promises s ! promise pr = None"
      by blast
    have t_other: "timeout pr \<noteq> t"
    proof
      assume "timeout pr = t"
      with c'(2) live have "c' = c"
        by simp
      with c'(3) other show False by simp
    qed
    have p_other: "promise pr \<noteq> t_promise c"
    proof
      assume "promise pr = t_promise c"
      with c'(4) have "t_promise c' = t_promise c" by simp
      from table_inv_timer_promise [OF inv c'(1) timer this] t_other show False
        by simp
    qed
    from p p_other t_other c'
    show "promise pr < length (promises ?s') \<and> promises ?s' ! promise pr = None \<and>
      (\<exists>c. map_of (timers ?s') (timeout pr) = Some c \<and> t_messageId c = mid \<and>
           t_promise c = promise pr)"
      by (simp add: settle_length settle_other)
  next
    fix t' c' assume "(t', c') \<in> set (timers ?s')"
    then have "(t', c') \<in> set (timers s)"
      by (simp add: in_set_delete)
    with ok show "t' \<le> timerCounter ?s'"
      by (simp add: pending_ok_timer_bound)
  qed
  moreover have "distinct (map fst (pendingRequests ?s'))"
    using keys by (simp add: AList.distinct_delete)
  moreover have "distinct (map (\<lambda>tc. t_promise (snd tc)) (timers ?s'))"
    using dist by (simp add: distinct_promise_delete)
  moreover have "list_all (\<lambda>(t, c). t_promise c < length (promises ?s')) (timers ?s')"
    using range by (auto simp: list_all_iff settle_length in_set_delete)
  ultimately show ?thesis
    by (simp add: table_inv_def)
qed


lemma table_inv_resolvePendingRequest:
  assumes "table_inv s"
  shows "table_inv (resolvePendingRequest mid d s)"
proof (cases "map_of (pendingRequests s) mid")
  case None
  with assms show ?thesis
    by (simp add: resolvePendingRequest_def)
next
  case (Some pr)
  from table_inv_entry [OF assms Some]
  obtain c where c: "map_of (timers s) (timeout pr) = Some c" "t_messageId c = mid"
      "t_promise c = promise pr"
    by blast
  from table_inv_remove [OF assms c(1), of "Resolved d"] c(2,3) Some show ?thesis
    by (simp add: resolvePendingRequest_def)
qed

lemma table_inv_rejectPendingRequest:
  assumes "table_inv s"
  shows "table_inv (rejectPendingRequest mid err s)"
proof (cases "map_of (pendingRequests s) mid")
  case None
  with assms show ?thesis
    by (simp add: rejectPendingRequest_def)
next
  case (Some pr)
  from table_inv_entry [OF assms Some]
  obtain c where c: "map_of (timers s) (timeout pr) = Some c" "t_messageId c = mid"
      "t_promise c = promise pr"
    by blast
  from table_inv_remove [OF assms c(1), of "Rejected err"] c(2,3) Some show ?thesis
    by (simp add: rejectPendingRequest_def)
qed

lemma update_order:
  "s\<lparr>timers := a, pendingRequests := b, promises := c\<rparr> =
   s\<lparr>timers := a, promises := c, pendingRequests := b\<rparr>"
  by (cases s) simp

lemma table_inv_fire_timeout:
  assumes "table_inv s"
  shows "table_inv (fire_timeout t s)"
proof (cases "map_of (timers s) t")
  case None
  with assms show ?thesis
    by (simp add: fire_timeout_def)
next
  case (Some c)
  from table_inv_remove [OF assms Some,
      of "Rejected (''Request timeout after '' @ show_nat (t_ms c) @ ''ms'')"] Some
  show ?thesis
    by (simp add: fire_timeout_def update_order)
qed

lemma table_inv_handleMessage:
  assumes "table_inv s"
  shows "table_inv (fst (handleMessage d s))"
  using assms
  by (auto simp: handleMessage_def Let_def table_inv_resolvePendingRequest
      split: option.splits jsval.splits)

lemma in_set_update:
  "(k', v') \<in> set (AList.update k v al) \<Longrightarrow> (k' = k \<and> v' = v) \<or> (k', v') \<in> set al"
  by (induction al) (auto split: if_splits)

lemma table_inv_createPendingRequest:
  assumes inv: "table_inv s"
  shows "table_inv (snd (createPendingRequest mid ms s))" (is "table_inv ?s'")
proof -
  from inv have ok: "pending_ok s" and keys: "distinct (map fst (pendingRequests s))"
    and dist: "distinct (map (\<lambda>tc. t_promise (snd tc)) (timers s))"
    and range: "list_all (\<lambda>(t, c). t_promise c < length (promises s)) (timers s)"
    by (simp_all add: table_inv_def)
  let ?p = "length (promises s)" and ?t = "Suc (timerCounter s)"
  have s': "?s' =
      s\<lparr>promises := promises s @ [None], timerCounter := ?t,
        timers := timers s @ [(?t, \<lparr>t_messageId = mid, t_promise = ?p, t_ms = ms\<rparr>)],
        pendingRequests := AList.update mid \<lparr>promise = ?p, timeout = ?t\<rparr> (pendingRequests s)\<rparr>"
    by (simp add: createPendingRequest_def Let_def)
  have fresh: "map_of (timers s) ?t = None"
  proof (cases "map_of (timers s) ?t")
    case (Some c)
    then have "(?t, c) \<in> set (timers s)"
      by (rule map_of_SomeD)
    with ok have "?t \<le> timerCounter s"
      by (rule pending_ok_timer_bound)
    then show ?thesis by simp
  qed simp
  have "pending_ok ?s'"
  proof (rule pending_okI)
    fix mid' pr assume "(mid', pr) \<in> set (pendingRequests ?s')"
    then consider (new) "mid' = mid" "pr = \<lparr>promise = ?p, timeout = ?t\<rparr>"
      | (old) "(mid', pr) \<in> set (pendingRequests s)"
      using in_set_update [of mid' pr mid "\<lparr>promise = ?p, timeout = ?t\<rparr>" "pendingRequests s"]
      by (auto simp: s')
    then show "promise pr < length (promises ?s') \<and> promises ?s' ! promise pr = None \<and>
      (\<exists>c. map_of (timers ?s') (timeout pr) = Some c \<and> t_messageId c = mid' \<and>
           t_promise c = promise pr)"
    proof cases
      case new
      with fresh show ?thesis
        by (simp add: s' map_add_def)
    next
      case old
      with keys have "map_of (pendingRequests s) mid' = Some pr"
        by simp
      from table_inv_entry [OF inv this]
      obtain c where "map_of (timers s) (timeout pr) = Some c" "t_messageId c = mid'"
          "t_promise c = promise pr" "promise pr < length (promises s)"
          "promises s ! promise pr = None"
        by blast
      then show ?thesis
        by (simp add: s' map_add_def nth_append)
    qed
  next
    fix t c assume "(t, c) \<in> set (timers ?s')"
    then have "t = ?t \<or> (t, c) \<in> set (timers s)"
      by (auto simp: s')
    with ok show "t \<le> timerCounter ?s'"
      by (auto simp: s' dest: pending_ok_timer_bound)
  qed
  moreover have "distinct (map fst (pendingRequests ?s'))"
    using keys by (simp add: s' AList.distinct_update)
  moreover have "distinct (map (\<lambda>tc. t_promise (snd tc)) (timers ?s'))"
    using dist range by (auto simp: s' list_all_iff)
  moreover have "list_all (\<lambda>(t, c). t_promise c < length (promises ?s')) (timers ?s')"
    using range by (auto simp: s' list_all_iff)
  ultimately show ?thesis
    by (simp add: table_inv_def)
qed

lemma cleanup_fold_timers:
  "timers (fold cleanup_entry xs s) =
     filter (\<lambda>tc. fst tc \<notin> (\<lambda>kv. timeout (snd kv)) ` set xs) (timers s)"
proof (induction xs arbitrary: s)
  case Nil
  then show ?case by simp
next
  case (Cons x xs)
  have "timers (cleanup_entry x s) = filter (\<lambda>tc. fst tc \<noteq> timeout (snd x)) (timers s)"
    by (auto simp: cleanup_entry_def AList.delete_eq intro: filter_cong)
  with Cons.IH [of "cleanup_entry x s"] show ?case
    by (auto intro: filter_cong)
qed

lemma cleanup_fold_counter: "timerCounter (fold cleanup_entry xs s) = timerCounter s"
  by (induction xs arbitrary: s) (simp_all add: cleanup_entry_def)

lemma table_inv_cleanup:
  assumes "table_inv s"
  shows "table_inv (cleanup s)"
proof -
  from assms have ok: "pending_ok s"
    and dist: "distinct (map (\<lambda>tc. t_promise (snd tc)) (timers s))"
    and range: "list_all (\<lambda>(t, c). t_promise c < length (promises s)) (timers s)"
    by (simp_all add: table_inv_def)
  have sub: "set (timers (cleanup s)) \<subseteq> set (timers s)"
    by (auto simp: cleanup_def cleanup_fold_timers)
  have "pending_ok (cleanup s)"
  proof (rule pending_okI)
    fix t c assume "(t, c) \<in> set (timers (cleanup s))"
    with sub ok show "t \<le> timerCounter (cleanup s)"
      by (auto simp: cleanup_def cleanup_fold_counter dest: pending_ok_timer_bound)
  qed (simp add: cleanup_def)
  moreover have "distinct (map (\<lambda>tc. t_promise (snd tc)) (timers (cleanup s)))"
    using dist by (simp add: cleanup_def cleanup_fold_timers distinct_map_filter)
  moreover have "list_all (\<lambda>(t, c). t_promise c < length (promises (cleanup s))) (timers (cleanup s))"
    using range sub
    by (auto simp: list_all_iff cleanup_def cleanup_fold_fields fold_settle_length)
  ultimately show ?thesis
    by (simp add: table_inv_def cleanup_def)
qed

lemma table_inv_new:
  "table_inv new_BridgeStrategy" "table_inv new_WindowsBridge" "table_inv new_WebBridge"
  by (simp_all add: table_inv_def pending_ok_def new_BridgeStrategy_def new_WindowsBridge_def
      new_WebBridge_def)

text \<open>
  The condition under which the two theorems on the table are stated holds of every
  table the operations of the base can produce.
\<close>

lemma table_inv_pending_ok: "table_inv s \<Longrightarrow> pending_ok s"
  by (simp add: table_inv_def)


section \<open>Round trips on concrete hosts\<close>

lemma show_nat_1000: "show_nat 1000 = ''1000''"
  by (simp add: show_nat.simps)

lemma show_nat_5000: "show_nat 5000 = ''5000''"
  by (simp add: show_nat.simps)

lemma show_nat_digit: "show_nat (Suc 0) = ''1''" "show_nat (Suc (Suc 0)) = ''2''"
  by (simp_all add: show_nat.simps)

lemma waiting_mobile_state:
  "waiting_mobile =
     new_AndroidBridge\<lparr>messageIdCounter := 1, promises := [None], timerCounter := 1,
       timers := [(1, \<lparr>t_messageId = ''msg_1000_1'', t_promise = 0, t_ms = 5000\<rparr>)],
       pendingRequests := [(''msg_1000_1'', \<lparr>promise = 0, timeout = 1\<rparr>)]\<rparr>"
  by (simp add: waiting_mobile_def Android_getStudentList_def mobile_message_window_def
      browser_window_def accepting_def createMessage_def generateMessageId_def
      createPendingRequest_def the_messageId_def new_BridgeStrategy_def new_AndroidBridge_def
      show_nat_1000 show_nat_digit Let_def)

lemma waiting_desktop_state:
  "waiting_desktop =
     new_WindowsBridge\<lparr>messageIdCounter := 2, promises := [None], timerCounter := 1,
       timers := [(1, \<lparr>t_messageId = ''msg_1000_1'', t_promise = 0, t_ms = 5000\<rparr>)],
       pendingRequests := [(''msg_1000_1'', \<lparr>promise = 0, timeout = 1\<rparr>)]\<rparr>"
  by (simp add: waiting_desktop_def Windows_getStudentList_def desktop_message_window_def
      browser_window_def accepting_def createMessage_def generateMessageId_def
      createPendingRequest_def Windows_sendMessage_def new_WindowsBridge_def
      show_nat_1000 show_nat_digit Let_def)

lemma ends_with_roster_reply: "ends_with ''Response'' ''getStudentListResponse''"
  by (simp add: ends_with_def)

theorem timeout_rejects_and_forgets_witness:
  "pending_ok waiting_mobile \<and>
   map_of (pendingRequests waiting_mobile) ''msg_1000_1'' = Some \<lparr>promise = 0, timeout = 1\<rparr> \<and>
   map_of (timers waiting_mobile) 1 =
     Some \<lparr>t_messageId = ''msg_1000_1'', t_promise = 0, t_ms = 5000\<rparr> \<and>
   get_prop (roster_reply ''msg_1000_1'') ''messageId'' = Some (JStr ''msg_1000_1'') \<and>
   promises (fire_timeout 1 waiting_mobile) ! 0 =
     Some (Rejected ''Request timeout after 5000ms'') \<and>
   map_of (pendingRequests (fire_timeout 1 waiting_mobile)) ''msg_1000_1'' = None \<and>
   fst (handleMessage (roster_reply ''msg_1000_1'') (fire_timeout 1 waiting_mobile)) =
     fire_timeout 1 waiting_mobile"
proof -
  have ok: "pending_ok waiting_mobile"
    by (simp add: waiting_mobile_state pending_ok_def)
  have entry: "map_of (pendingRequests waiting_mobile) ''msg_1000_1'' =
      Some \<lparr>promise = 0, timeout = 1\<rparr>"
    by (simp add: waiting_mobile_state)
  have timer: "map_of (timers waiting_mobile) (timeout \<lparr>promise = 0, timeout = 1\<rparr>) =
      Some \<lparr>t_messageId = ''msg_1000_1'', t_promise = 0, t_ms = 5000\<rparr>"
    by (simp add: waiting_mobile_state)
  have late: "get_prop (roster_reply ''msg_1000_1'') ''messageId'' = Some (JStr ''msg_1000_1'')"
    by (simp add: roster_reply_def)
  show ?thesis
    using ok entry timer late
      timeout_rejects_and_forgets [OF ok entry timer, of "roster_reply ''msg_1000_1''"]
    by (simp add: show_nat_5000)
qed

theorem disconnect_rejects_all_pending_witness:
  "strategy_pending_ok (SAndroid waiting_mobile) \<and>
   strategy_pendingRequests (SAndroid waiting_mobile) =
     [(''msg_1000_1'', \<lparr>promise = 0, timeout = 1\<rparr>)] \<and>
   strategy_pendingRequests (fst (strategy_disconnect (SAndroid waiting_mobile))) = [] \<and>
   strategy_promises (fst (strategy_disconnect (SAndroid waiting_mobile))) ! 0 =
     Some (Rejected ''Connection closed'') \<and>
   strategy_pendingRequests
     (fst (snd (strategy_connect 3000 mobile_message_window
        (fst (strategy_disconnect (SAndroid waiting_mobile)))))) = []"
proof -
  have ok: "strategy_pending_ok (SAndroid waiting_mobile)"
    by (simp add: waiting_mobile_state pending_ok_def)
  have entries: "strategy_pendingRequests (SAndroid waiting_mobile) =
      [(''msg_1000_1'', \<lparr>promise = 0, timeout = 1\<rparr>)]"
    by (simp add: waiting_mobile_state)
  show ?thesis
    using ok entries disconnect_rejects_all_pending [OF ok, of 3000 mobile_message_window]
    by simp
qed

text \<open>
  C2 on the desktop strategy: \<open>getStudentList\<close> sent as a round trip registers its
  pending request under the id \<open>msg_1000_1\<close> and puts the id \<open>msg_1000_2\<close> into the
  wire message. A reply that echoes the id of the wire message is published on the bus
  but leaves the request pending, and the request ends in its timeout.
\<close>

theorem Windows_round_trip_ids_differ:
  "fst (Windows_getStudentList 1000 desktop_message_window new_WindowsBridge) = Await 0 \<and>
   map fst (pendingRequests waiting_desktop) = [''msg_1000_1''] \<and>
   map messageId (snd (snd (Windows_getStudentList 1000 desktop_message_window new_WindowsBridge))) =
     [Some ''msg_1000_2''] \<and>
   handleMessage (roster_reply ''msg_1000_2'') waiting_desktop =
     (waiting_desktop, [(''getStudentListResponse'', JArr [])]) \<and>
   promises waiting_desktop = [None] \<and>
   promises (fire_timeout 1 waiting_desktop) = [Some (Rejected ''Request timeout after 5000ms'')]"
proof -
  have call: "Windows_getStudentList 1000 desktop_message_window new_WindowsBridge =
      (Await 0, waiting_desktop,
       [\<lparr>event = ''getStudentList'', data = JObj [], timestamp = 1000,
         messageId = Some ''msg_1000_2''\<rparr>])"
    unfolding waiting_desktop_state
    by (simp add: Windows_getStudentList_def desktop_message_window_def
      browser_window_def accepting_def createMessage_def generateMessageId_def
      createPendingRequest_def Windows_sendMessage_def new_WindowsBridge_def
      show_nat_1000 show_nat_digit Let_def)
  have reply: "handleMessage (roster_reply ''msg_1000_2'') waiting_desktop =
      (waiting_desktop, [(''getStudentListResponse'', JArr [])])"
    by (simp add: handleMessage_def roster_reply_def ends_with_roster_reply
        waiting_desktop_state Let_def)
  have fired: "promises (fire_timeout 1 waiting_desktop) =
      [Some (Rejected ''Request timeout after 5000ms'')]"
    by (simp add: fire_timeout_def waiting_desktop_state settle_def show_nat_5000)
  show ?thesis
    using reply fired by (simp add: call) (simp add: waiting_desktop_state)
qed

text \<open>
  The mobile strategy registers the request under the id of the wire message, and a
  reply that echoes it resolves the request with the payload and is published.
\<close>

lemma Android_round_trip_ids_agree:
  "fst (Android_getStudentList 1000 mobile_message_window new_AndroidBridge) = Await 0 \<and>
   map fst (pendingRequests waiting_mobile) = [''msg_1000_1''] \<and>
   map messageId (snd (snd (Android_getStudentList 1000 mobile_message_window new_AndroidBridge))) =
     [Some ''msg_1000_1''] \<and>
   promises (fst (handleMessage (roster_reply ''msg_1000_1'') waiting_mobile)) =
     [Some (Resolved (JArr []))] \<and>
   pendingRequests (fst (handleMessage (roster_reply ''msg_1000_1'') waiting_mobile)) = [] \<and>
   snd (handleMessage (roster_reply ''msg_1000_1'') waiting_mobile) =
     [(''getStudentListResponse'', JArr [])]"
proof -
  have call: "Android_getStudentList 1000 mobile_message_window new_AndroidBridge =
      (Await 0, waiting_mobile,
       [\<lparr>event = ''getStudentList'', data = JObj [], timestamp = 1000,
         messageId = Some ''msg_1000_1''\<rparr>])"
    unfolding waiting_mobile_state
    by (simp add: Android_getStudentList_def mobile_message_window_def
      browser_window_def accepting_def createMessage_def generateMessageId_def
      createPendingRequest_def the_messageId_def new_BridgeStrategy_def new_AndroidBridge_def
      show_nat_1000 show_nat_digit Let_def)
  have reply: "handleMessage (roster_reply ''msg_1000_1'') waiting_mobile =
      (waiting_mobile\<lparr>timers := [], promises := [Some (Resolved (JArr []))],
         pendingRequests := []\<rparr>,
       [(''getStudentListResponse'', JArr [])])"
    by (simp add: handleMessage_def roster_reply_def ends_with_roster_reply
        waiting_mobile_state resolvePendingRequest_def settle_def Let_def)
  show ?thesis
    by (simp add: call reply) (simp add: waiting_mobile_state)
qed


text \<open>
  An incoming message whose \<open>event\<close> is a string ending in \<open>Response\<close> and whose
  \<open>messageId\<close> is the id of a pending request resolves that request with the data of
  the message and takes it out of the table; whether or not it matched, a message with
  a non-empty string as \<open>event\<close> is published on the bus under that name with its data.
\<close>

theorem handleMessage_resolves_and_republishes:
  assumes "pending_ok s"
    and "map_of (pendingRequests s) mid = Some pr"
    and "mid \<noteq> []"
    and "get_prop d ''event'' = Some (JStr e)"
    and "e \<noteq> []"
    and "get_prop d ''messageId'' = Some (JStr mid)"
    and "get_prop d ''data'' = Some payload"
  shows "(ends_with ''Response'' e \<longrightarrow>
            promises (fst (handleMessage d s)) ! promise pr = Some (Resolved payload) \<and>
            map_of (pendingRequests (fst (handleMessage d s))) mid = None) \<and>
         (\<not> ends_with ''Response'' e \<longrightarrow> fst (handleMessage d s) = s) \<and>
         snd (handleMessage d s) = [(e, payload)]"
proof -
  from assms(1,2) have "promise pr < length (promises s)" and "promises s ! promise pr = None"
    by (rule pending_ok_entry)+
  then have "promises (resolvePendingRequest mid payload s) ! promise pr = Some (Resolved payload)"
    and "map_of (pendingRequests (resolvePendingRequest mid payload s)) mid = None"
    using assms(2) by (simp_all add: resolvePendingRequest_def settle_pending map_of_delete_same)
  then show ?thesis
    using assms by (simp add: handleMessage_def Let_def)
qed

theorem handleMessage_resolves_and_republishes_witness:
  "pending_ok waiting_mobile \<and>
   map_of (pendingRequests waiting_mobile) ''msg_1000_1'' = Some \<lparr>promise = 0, timeout = 1\<rparr> \<and>
   get_prop (roster_reply ''msg_1000_1'') ''event'' = Some (JStr ''getStudentListResponse'') \<and>
   get_prop (roster_reply ''msg_1000_1'') ''messageId'' = Some (JStr ''msg_1000_1'') \<and>
   get_prop (roster_reply ''msg_1000_1'') ''data'' = Some (JArr []) \<and>
   ends_with ''Response'' ''getStudentListResponse'' \<and>
   promises (fst (handleMessage (roster_reply ''msg_1000_1'') waiting_mobile)) ! 0 =
     Some (Resolved (JArr [])) \<and>
   map_of (pendingRequests (fst (handleMessage (roster_reply ''msg_1000_1'') waiting_mobile)))
     ''msg_1000_1'' = None \<and>
   snd (handleMessage (roster_reply ''msg_1000_1'') waiting_mobile) =
     [(''getStudentListResponse'', JArr [])]"
proof -
  have ok: "pending_ok waiting_mobile"
    by (simp add: waiting_mobile_state pending_ok_def)
  have entry: "map_of (pendingRequests waiting_mobile) ''msg_1000_1'' =
      Some \<lparr>promise = 0, timeout = 1\<rparr>"
    by (simp add: waiting_mobile_state)
  have fields: "get_prop (roster_reply ''msg_1000_1'') ''event'' =
        Some (JStr ''getStudentListResponse'')"
      "get_prop (roster_reply ''msg_1000_1'') ''messageId'' = Some (JStr ''msg_1000_1'')"
      "get_prop (roster_reply ''msg_1000_1'') ''data'' = Some (JArr [])"
    by (simp_all add: roster_reply_def)
  have nonempty: "''msg_1000_1'' \<noteq> []" "''getStudentListResponse'' \<noteq> []"
    by simp_all
  show ?thesis
    using ok entry fields ends_with_roster_reply
      handleMessage_resolves_and_republishes [OF ok entry nonempty(1) fields(1) nonempty(2)
        fields(2) fields(3)]
    by simp
qed


section \<open>Properties of the coordinator\<close>

lemma connect_begin_web:
  "det_platform (detect w) = PWeb \<or> det_platform (detect w) = PElectron \<Longrightarrow>
   connect_begin now w svc =
     (AwaitConnect (length (instances svc)) None,
      svc\<lparr>platform := det_platform (detect w),
          instances := instances svc @ [SWeb (new_WebBridge\<lparr>connectionStatus := Connecting\<rparr>)],
          strategy := Some (length (instances svc)),
          published := published svc @ [(''connectionStatusChanged'', JStr ''connecting'')]\<rparr>)"
  by (auto simp: connect_begin_def createStrategy_def Web_connect_begin_def
      updateConnectionStatus_def Let_def)

lemma connect_begin_windows:
  "det_platform (detect w) = PWindows \<Longrightarrow>
   connect_begin now w svc =
     (AwaitConnect (length (instances svc)) (Some (fst (Windows_connect now w new_WindowsBridge))),
      svc\<lparr>platform := PWindows,
          instances := instances svc @ [SWindows (fst (snd (Windows_connect now w new_WindowsBridge)))],
          strategy := Some (length (instances svc)),
          published := published svc @ snd (snd (Windows_connect now w new_WindowsBridge))\<rparr>)"
  by (simp add: connect_begin_def createStrategy_def Let_def split: prod.splits)

lemma connect_begin_android:
  "det_platform (detect w) = PAndroid \<Longrightarrow>
   connect_begin now w svc =
     (AwaitConnect (length (instances svc)) (Some (fst (Android_connect now w new_AndroidBridge))),
      svc\<lparr>platform := PAndroid,
          instances := instances svc @ [SAndroid (fst (snd (Android_connect now w new_AndroidBridge)))],
          strategy := Some (length (instances svc)),
          published := published svc @ snd (snd (Android_connect now w new_AndroidBridge))\<rparr>)"
  by (simp add: connect_begin_def createStrategy_def Let_def split: prod.splits)

lemma Windows_connect_failed:
  assumes "fst (Windows_connect now w s) = Some e"
  shows "connectionStatus (fst (snd (Windows_connect now w s))) = Error"
    and "snd (snd (Windows_connect now w s)) =
      [(''connectionStatusChanged'', JStr ''connecting''),
       (''connectionStatusChanged'', JStr ''error'')]"
  using assms
  by (auto simp: Windows_connect_def Windows_setupListeners_def updateConnectionStatus_def
      updateLastActivity_def createMessage_def generateMessageId_def Let_def
      split: option.splits reply.splits prod.splits)

lemma Android_connect_failed:
  assumes "fst (Android_connect now w s) = Some e"
  shows "connectionStatus (fst (snd (Android_connect now w s))) = Error"
    and "snd (snd (Android_connect now w s)) =
      [(''connectionStatusChanged'', JStr ''connecting''),
       (''connectionStatusChanged'', JStr ''error'')]"
  using assms
  by (auto simp: Android_connect_def updateConnectionStatus_def updateLastActivity_def Let_def
      split: if_splits)

text \<open>
  What \<open>connect_begin\<close> leaves when the strategy's promise is already rejected: the
  new strategy object is in the error state and only the two status changes were
  published.
\<close>

lemma connect_begin_failed:
  assumes "fst (connect_begin now w svc) = AwaitConnect a (Some (Some e))"
  shows "a = length (instances svc)"
    and "strategy (snd (connect_begin now w svc)) = Some a"
    and "length (instances (snd (connect_begin now w svc))) = Suc a"
    and "strategy_status (instances (snd (connect_begin now w svc)) ! a) = Error"
    and "published (snd (connect_begin now w svc)) =
      published svc @ [(''connectionStatusChanged'', JStr ''connecting''),
                       (''connectionStatusChanged'', JStr ''error'')]"
    and "connectionRetryCount (snd (connect_begin now w svc)) = connectionRetryCount svc"
    and "maxRetries (snd (connect_begin now w svc)) = maxRetries svc"
    and "retryTimerCounter (snd (connect_begin now w svc)) = retryTimerCounter svc"
    and "retryTimers (snd (connect_begin now w svc)) = retryTimers svc"
proof -
  consider (windows) "det_platform (detect w) = PWindows"
    | (android) "det_platform (detect w) = PAndroid"
    | (web) "det_platform (detect w) = PWeb \<or> det_platform (detect w) = PElectron"
    by (cases "det_platform (detect w)") auto
  then have "a = length (instances svc) \<and>
    strategy (snd (connect_begin now w svc)) = Some a \<and>
    length (instances (snd (connect_begin now w svc))) = Suc a \<and>
    strategy_status (instances (snd (connect_begin now w svc)) ! a) = Error \<and>
    published (snd (connect_begin now w svc)) =
      published svc @ [(''connectionStatusChanged'', JStr ''connecting''),
                       (''connectionStatusChanged'', JStr ''error'')] \<and>
    connectionRetryCount (snd (connect_begin now w svc)) = connectionRetryCount svc \<and>
    maxRetries (snd (connect_begin now w svc)) = maxRetries svc \<and>
    retryTimerCounter (snd (connect_begin now w svc)) = retryTimerCounter svc \<and>
    retryTimers (snd (connect_begin now w svc)) = retryTimers svc"
  proof cases
    case windows
    with assms have "fst (Windows_connect now w new_WindowsBridge) = Some e"
      and "a = length (instances svc)"
      by (simp_all add: connect_begin_windows)
    with windows show ?thesis
      by (simp add: connect_begin_windows Windows_connect_failed)
  next
    case android
    with assms have "fst (Android_connect now w new_AndroidBridge) = Some e"
      and "a = length (instances svc)"
      by (simp_all add: connect_begin_android)
    with android show ?thesis
      by (simp add: connect_begin_android Android_connect_failed)
  next
    case web
    with assms show ?thesis
      by (simp add: connect_begin_web)
  qed
  then show "a = length (instances svc)"
    and "strategy (snd (connect_begin now w svc)) = Some a"
    and "length (instances (snd (connect_begin now w svc))) = Suc a"
    and "strategy_status (instances (snd (connect_begin now w svc)) ! a) = Error"
    and "published (snd (connect_begin now w svc)) =
      published svc @ [(''connectionStatusChanged'', JStr ''connecting''),
                       (''connectionStatusChanged'', JStr ''error'')]"
    and "connectionRetryCount (snd (connect_begin now w svc)) = connectionRetryCount svc"
    and "maxRetries (snd (connect_begin now w svc)) = maxRetries svc"
    and "retryTimerCounter (snd (connect_begin now w svc)) = retryTimerCounter svc"
    and "retryTimers (snd (connect_begin now w svc)) = retryTimers svc"
    by blast+
qed

lemma finish_web_fulfils: "fst (finish_web now a svc) = None"
  by (simp add: finish_web_def Web_connect_finish_def updateConnectionStatus_def Let_def
      split: Strategy.splits)

lemma connect_begin_awaits: "\<exists>a r. fst (connect_begin now w svc) = AwaitConnect a r"
  by (cases "det_platform (detect w)")
     (simp_all add: connect_begin_windows connect_begin_android connect_begin_web)

lemma connect_resume_first:
  "fst (connect_resume now (AwaitConnect a r) svc) = Fulfilled \<or>
   (\<exists>b. fst (connect_resume now (AwaitConnect a r) svc) = AwaitFallback b)"
proof (cases r)
  case None
  obtain svc1 where "finish_web now a svc = (None, svc1)"
    using finish_web_fulfils [of now a svc] by (cases "finish_web now a svc") simp
  with None show ?thesis
    by (simp add: connect_resume_def connect_succeeded_def)
next
  case (Some res)
  then show ?thesis
    by (cases res)
       (simp_all add: connect_resume_def connect_succeeded_def connect_failed_def Let_def
        split: prod.splits)
qed

lemma connect_resume_fallback: "fst (connect_resume now (AwaitFallback b) svc) = Fulfilled"
proof -
  obtain svc1 where "finish_web now b svc = (None, svc1)"
    using finish_web_fulfils [of now b svc] by (cases "finish_web now b svc") simp
  then show ?thesis
    by (simp add: connect_resume_def)
qed

lemma connect_resume_fulfilled: "connect_resume now Fulfilled svc = (Fulfilled, svc)"
  by (simp add: connect_resume_def)

lemma connect_fulfils: "fst (connect now w svc) = Fulfilled"
proof -
  obtain a r svc1 where started: "connect_begin now w svc = (AwaitConnect a r, svc1)"
    using connect_begin_awaits [of now w svc] by (cases "connect_begin now w svc") auto
  obtain c2 svc2 where first: "connect_resume now (AwaitConnect a r) svc1 = (c2, svc2)"
    by (cases "connect_resume now (AwaitConnect a r) svc1")
  from connect_resume_first [of now a r svc1] first
  have "c2 = Fulfilled \<or> (\<exists>b. c2 = AwaitFallback b)"
    by simp
  then have "fst (connect_resume now c2 svc2) = Fulfilled"
    by (auto simp: connect_resume_fulfilled connect_resume_fallback)
  with started first show ?thesis
    by (simp add: connect_def split: prod.splits)
qed


lemma connect_failed_retry:
  assumes "connectionRetryCount svc < maxRetries svc"
  shows "connect_failed svc =
     (Fulfilled,
      svc\<lparr>connectionRetryCount := Suc (connectionRetryCount svc),
          retryTimerCounter := Suc (retryTimerCounter svc),
          retryTimers := retryTimers svc @
            [(Suc (retryTimerCounter svc), 2000 * Suc (connectionRetryCount svc))],
          retryTimeout := Some (Suc (retryTimerCounter svc))\<rparr>)"
  using assms by (simp add: connect_failed_def Let_def)

text \<open>
  C10: when the active strategy's \<open>connect\<close> fails and the retry count is below the
  maximum, the call of the coordinator's \<open>connect\<close> fulfils; what it published are the
  two status changes of the strategy and no event named \<open>error\<close>; the bridge is not
  connected; the retry count is one higher and a timer of 2000 ms times the new count
  is set and remembered. In every environment and state the call fulfils: it would
  reject only on a failure of the fallback's own \<open>connect\<close>, which has none.
\<close>

theorem connect_failure_schedules_retry:
  assumes "fst (connect_begin now w svc) = AwaitConnect a (Some (Some e))"
    and "connectionRetryCount svc < maxRetries svc"
  shows "fst (connect now w svc) = Fulfilled \<and>
         published (snd (connect now w svc)) =
           published svc @ [(''connectionStatusChanged'', JStr ''connecting''),
                            (''connectionStatusChanged'', JStr ''error'')] \<and>
         ''error'' \<notin> fst ` set (drop (length (published svc)) (published (snd (connect now w svc)))) \<and>
         \<not> isConnected (snd (connect now w svc)) \<and>
         connectionRetryCount (snd (connect now w svc)) = Suc (connectionRetryCount svc) \<and>
         retryTimeout (snd (connect now w svc)) = Some (Suc (retryTimerCounter svc)) \<and>
         retryTimers (snd (connect now w svc)) =
           retryTimers svc @ [(Suc (retryTimerCounter svc), 2000 * Suc (connectionRetryCount svc))] \<and>
         fst (connect now' w' svc') = Fulfilled"
proof -
  obtain svc1 where started: "connect_begin now w svc = (AwaitConnect a (Some (Some e)), svc1)"
    using assms(1) by (cases "connect_begin now w svc") simp
  then have svc1: "svc1 = snd (connect_begin now w svc)"
    by simp
  note facts = connect_begin_failed [OF assms(1), folded svc1]
  from assms(2) facts have budget: "connectionRetryCount svc1 < maxRetries svc1"
    by simp
  let ?svc2 = "svc1\<lparr>connectionRetryCount := Suc (connectionRetryCount svc1),
          retryTimerCounter := Suc (retryTimerCounter svc1),
          retryTimers := retryTimers svc1 @
            [(Suc (retryTimerCounter svc1), 2000 * Suc (connectionRetryCount svc1))],
          retryTimeout := Some (Suc (retryTimerCounter svc1))\<rparr>"
  have resumed: "connect_resume now (AwaitConnect a (Some (Some e))) svc1 = (Fulfilled, ?svc2)"
    using connect_failed_retry [OF budget] by (simp add: connect_resume_def)
  have run: "connect now w svc = (Fulfilled, ?svc2)"
    by (simp add: connect_def started resumed connect_resume_fulfilled)
  have status: "\<not> isConnected ?svc2"
    using facts by (simp add: isConnected_def)
  have events: "published ?svc2 =
      published svc @ [(''connectionStatusChanged'', JStr ''connecting''),
                       (''connectionStatusChanged'', JStr ''error'')]"
    using facts by simp
  have always: "fst (connect now' w' svc') = Fulfilled"
    by (rule connect_fulfils)
  show ?thesis
    using status events always facts by (simp add: run)
qed

theorem connect_failure_schedules_retry_witness:
  "fst (connect_begin 1000 broken_desktop_window new_BridgeService) =
     AwaitConnect 0 (Some (Some ''host is gone'')) \<and>
   connectionRetryCount new_BridgeService < maxRetries new_BridgeService \<and>
   maxRetries new_BridgeService = 3 \<and>
   fst (connect 1000 broken_desktop_window new_BridgeService) = Fulfilled \<and>
   published (snd (connect 1000 broken_desktop_window new_BridgeService)) =
     [(''connectionStatusChanged'', JStr ''connecting''),
      (''connectionStatusChanged'', JStr ''error'')] \<and>
   \<not> isConnected (snd (connect 1000 broken_desktop_window new_BridgeService)) \<and>
   connectionRetryCount (snd (connect 1000 broken_desktop_window new_BridgeService)) = 1 \<and>
   retryTimeout (snd (connect 1000 broken_desktop_window new_BridgeService)) = Some 1 \<and>
   retryTimers (snd (connect 1000 broken_desktop_window new_BridgeService)) = [(1, 2000)]"
proof -
  have detected: "det_platform (detect broken_desktop_window) = PWindows"
    by (simp add: detect_def hasWindowsReceiveMessage_def broken_desktop_window_def
        browser_window_def)
  have refused: "fst (Windows_connect 1000 broken_desktop_window new_WindowsBridge) =
      Some ''host is gone''"
    by (simp add: Windows_connect_def Windows_setupListeners_def broken_desktop_window_def
        browser_window_def updateConnectionStatus_def createMessage_def generateMessageId_def
        new_WindowsBridge_def Let_def)
  have failed: "fst (connect_begin 1000 broken_desktop_window new_BridgeService) =
      AwaitConnect 0 (Some (Some ''host is gone''))"
    by (simp add: connect_begin_windows [OF detected] refused new_BridgeService_def)
  have budget: "connectionRetryCount new_BridgeService < maxRetries new_BridgeService"
    and three: "maxRetries new_BridgeService = 3"
    by (simp_all add: new_BridgeService_def)
  have fresh: "published new_BridgeService = []" "connectionRetryCount new_BridgeService = 0"
      "retryTimerCounter new_BridgeService = 0" "retryTimers new_BridgeService = []"
    by (simp_all add: new_BridgeService_def)
  show ?thesis
    using failed budget three
      connect_failure_schedules_retry [OF failed budget, of 0 browser_window new_BridgeService]
    by (simp add: fresh)
qed

lemma connecting_service_state:
  "connecting_service =
     new_BridgeService\<lparr>instances := [SWeb (new_WebBridge\<lparr>connectionStatus := Connecting\<rparr>)],
       strategy := Some 0,
       published := [(''connectionStatusChanged'', JStr ''connecting'')]\<rparr>"
proof -
  have "det_platform (detect browser_window) = PWeb"
    by (simp add: detect_def hasWindowsReceiveMessage_def hasAndroidObject_def
        hasAsyncBridge_def hasChromeWebView_def hasElectronAPI_def browser_window_def)
  then show ?thesis
    by (simp add: connecting_service_def connect_begin_web new_BridgeService_def)
qed

lemma reentered_service_state:
  "reentered_service =
     new_BridgeService\<lparr>instances := [SWeb (new_WebBridge\<lparr>connectionStatus := Connecting\<rparr>),
                                      SWeb (new_WebBridge\<lparr>connectionStatus := Connecting\<rparr>)],
       strategy := Some 1,
       published := [(''connectionStatusChanged'', JStr ''connecting''),
                     (''connectionStatusChanged'', JStr ''connecting'')]\<rparr>"
proof -
  have "det_platform (detect browser_window) = PWeb"
    by (simp add: detect_def hasWindowsReceiveMessage_def hasAndroidObject_def
        hasAsyncBridge_def hasChromeWebView_def hasElectronAPI_def browser_window_def)
  then show ?thesis
    by (simp add: reentered_service_def connect_begin_web connecting_service_state
        new_BridgeService_def)
qed

text \<open>
  C4 as stated fails: in a plain browser, a second \<open>connect\<close> called while the first
  call is suspended in its Connecting phase constructs a second strategy object. Both
  objects are then connecting, and both are connected once the two calls have been
  resumed.
\<close>

theorem connect_reentrant_counterexample:
  "fst (connect_begin 0 browser_window new_BridgeService) = AwaitConnect 0 None \<and>
   map strategy_status (instances connecting_service) = [Connecting] \<and>
   fst (connect_begin 1 browser_window connecting_service) = AwaitConnect 1 None \<and>
   map strategy_status (instances reentered_service) = [Connecting, Connecting] \<and>
   live_instances reentered_service = [0, 1] \<and>
   map strategy_status
     (instances (snd (connect_resume 3 (AwaitConnect 1 None)
        (snd (connect_resume 2 (AwaitConnect 0 None) reentered_service))))) =
     [Connected, Connected]"
proof -
  have plain: "det_platform (detect browser_window) = PWeb"
    by (simp add: detect_def hasWindowsReceiveMessage_def hasAndroidObject_def
        hasAsyncBridge_def hasChromeWebView_def hasElectronAPI_def browser_window_def)
  have first: "fst (connect_begin 0 browser_window new_BridgeService) = AwaitConnect 0 None"
    by (simp add: connect_begin_web plain new_BridgeService_def)
  have second: "fst (connect_begin 1 browser_window connecting_service) = AwaitConnect 1 None"
    by (simp add: connect_begin_web plain connecting_service_state)
  have live: "live_instances reentered_service = [0, 1]"
    by (simp add: live_instances_def reentered_service_state upt_rec)
  have resumed: "map strategy_status
     (instances (snd (connect_resume 3 (AwaitConnect 1 None)
        (snd (connect_resume 2 (AwaitConnect 0 None) reentered_service))))) =
     [Connected, Connected]"
    by (simp add: reentered_service_state connect_resume_def finish_web_def
        Web_connect_finish_def updateConnectionStatus_def updateLastActivity_def
        connect_succeeded_def Let_def)
  show ?thesis
    using first second live resumed
    by (simp add: connecting_service_state reentered_service_state)
qed

text \<open>
  C4, as amended: every call of \<open>connect\<close>, whatever the state of the coordinator
  (also while an earlier call is still connecting), constructs one more strategy
  object and makes it the coordinator's strategy; the objects constructed before are
  left exactly as they were, neither awaited nor torn down. The coordinator refers to
  one strategy object, the newest.
\<close>

theorem connect_constructs_strategy:
  "length (instances (snd (connect_begin now w svc))) = Suc (length (instances svc)) \<and>
   strategy (snd (connect_begin now w svc)) = Some (length (instances svc)) \<and>
   take (length (instances svc)) (instances (snd (connect_begin now w svc))) = instances svc \<and>
   (\<exists>r. fst (connect_begin now w svc) = AwaitConnect (length (instances svc)) r)"
  by (cases "det_platform (detect w)")
     (simp_all add: connect_begin_windows connect_begin_android connect_begin_web)

theorem connect_constructs_strategy_witness:
  "length (instances connecting_service) = 1 \<and>
   length (instances (snd (connect_begin 1 browser_window connecting_service))) = 2 \<and>
   strategy (snd (connect_begin 1 browser_window connecting_service)) = Some 1 \<and>
   take 1 (instances (snd (connect_begin 1 browser_window connecting_service))) =
     instances connecting_service"
proof -
  have one: "length (instances connecting_service) = 1"
    by (simp add: connecting_service_state)
  show ?thesis
    using one connect_constructs_strategy [of 1 browser_window connecting_service]
    by simp
qed


end
